theory Spec2Isabelle
  imports Complex_Main "HOL-Library.Sublist" "HOL-Library.Word" "HOL-Library.Log_Nat"
begin

section \<open>Go standard library functions used by the package\<close>

text \<open>
  A Go string is a sequence of bytes; it is modelled as \<^typ>\<open>string\<close>, a list of
  8-bit characters. The functions of this section are those of the packages
  \<^verbatim>\<open>strings\<close>, \<^verbatim>\<open>strconv\<close>, \<^verbatim>\<open>fmt\<close> and \<^verbatim>\<open>time\<close> that the provider calls.
\<close>

subsection \<open>strings.TrimRight, strings.HasSuffix, strings.TrimSuffix\<close>

text \<open>\<^verbatim>\<open>strings.TrimRight(s, cutset)\<close> for a cutset of ASCII bytes: all trailing bytes
  of \<open>s\<close> that occur in the cutset are removed.\<close>

definition TrimRight :: "string \<Rightarrow> string \<Rightarrow> string" where
  "TrimRight s cutset = rev (dropWhile (\<lambda>c. c \<in> set cutset) (rev s))"

text \<open>\<^verbatim>\<open>len(s) >= len(suffix) && s[len(s)-len(suffix):] == suffix\<close>\<close>

definition HasSuffix :: "string \<Rightarrow> string \<Rightarrow> bool" where
  "HasSuffix s suf = (length suf \<le> length s \<and> drop (length s - length suf) s = suf)"

definition TrimSuffix :: "string \<Rightarrow> string \<Rightarrow> string" where
  "TrimSuffix s suf = (if HasSuffix s suf then take (length s - length suf) s else s)"

subsection \<open>strings.ToUpper\<close>

definition upper_byte :: "char \<Rightarrow> char" where
  "upper_byte c =
     (case map_of (zip ''abcdefghijklmnopqrstuvwxyz'' ''ABCDEFGHIJKLMNOPQRSTUVWXYZ'') c of
        Some u \<Rightarrow> u
      | None \<Rightarrow> c)"

text \<open>
  ASCII letters are mapped bytewise. Two non-ASCII runes have an ASCII upper case:
  U+017F (bytes C5 BF) maps to \<open>S\<close> and U+0131 (bytes C4 B1) maps to \<open>I\<close>. Every other
  byte from 0x80 on is copied: Go's result has a non-ASCII byte at that place too, so a
  comparison of the result with an ASCII type name has the same outcome.
\<close>

fun ToUpper :: "string \<Rightarrow> string" where
  "ToUpper [] = []"
| "ToUpper [c] = [upper_byte c]"
| "ToUpper (c # d # cs) =
     (if c = CHR 0xC5 \<and> d = CHR 0xBF then CHR ''S'' # ToUpper cs
      else if c = CHR 0xC4 \<and> d = CHR 0xB1 then CHR ''I'' # ToUpper cs
      else upper_byte c # ToUpper (d # cs))"

subsection \<open>strings.Fields\<close>

text \<open>The UTF-8 encodings of the runes for which \<^verbatim>\<open>unicode.IsSpace\<close> holds.\<close>

definition ascii_space :: "char list" where
  "ascii_space = [CHR 0x09, CHR 0x0A, CHR 0x0B, CHR 0x0C, CHR 0x0D, CHR 0x20]"

definition unicode_space2 :: "string list" where
  "unicode_space2 = [[CHR 0xC2, CHR 0x85], [CHR 0xC2, CHR 0xA0]]"

definition unicode_space3 :: "string list" where
  "unicode_space3 =
     [[CHR 0xE1, CHR 0x9A, CHR 0x80],
      [CHR 0xE2, CHR 0x80, CHR 0x80], [CHR 0xE2, CHR 0x80, CHR 0x81],
      [CHR 0xE2, CHR 0x80, CHR 0x82], [CHR 0xE2, CHR 0x80, CHR 0x83],
      [CHR 0xE2, CHR 0x80, CHR 0x84], [CHR 0xE2, CHR 0x80, CHR 0x85],
      [CHR 0xE2, CHR 0x80, CHR 0x86], [CHR 0xE2, CHR 0x80, CHR 0x87],
      [CHR 0xE2, CHR 0x80, CHR 0x88], [CHR 0xE2, CHR 0x80, CHR 0x89],
      [CHR 0xE2, CHR 0x80, CHR 0x8A], [CHR 0xE2, CHR 0x80, CHR 0xA8],
      [CHR 0xE2, CHR 0x80, CHR 0xA9], [CHR 0xE2, CHR 0x80, CHR 0xAF],
      [CHR 0xE2, CHR 0x81, CHR 0x9F], [CHR 0xE3, CHR 0x80, CHR 0x80]]"

text \<open>The number of bytes of the white-space rune a string starts with; 0 when it
  starts with none. A white-space rune never starts at a continuation byte, so stepping
  over any other rune one byte at a time finds the same separators as decoding it.\<close>

fun space_len :: "string \<Rightarrow> nat" where
  "space_len [] = 0"
| "space_len (c # cs) =
     (if c \<in> set ascii_space then 1
      else if c # take 1 cs \<in> set unicode_space2 then 2
      else if c # take 2 cs \<in> set unicode_space3 then 3
      else 0)"

text \<open>The scan of \<^verbatim>\<open>strings.Fields\<close>; \<open>cur\<close> holds the bytes of the field being read
  (empty when no field is open).\<close>

fun Fields_go :: "string \<Rightarrow> string \<Rightarrow> string list" where
  "Fields_go cur [] = (if cur = [] then [] else [cur])"
| "Fields_go cur (c # cs) =
     (if space_len (c # cs) = 0 then Fields_go (cur @ [c]) cs
      else (if cur = [] then [] else [cur]) @ Fields_go [] (drop (space_len (c # cs) - 1) cs))"

definition Fields :: "string \<Rightarrow> string list" where
  "Fields s = Fields_go [] s"

subsection \<open>strings.SplitN with a one-byte separator\<close>

fun IndexByte :: "string \<Rightarrow> char \<Rightarrow> nat option" where
  "IndexByte [] sep = None"
| "IndexByte (c # cs) sep =
     (if c = sep then Some 0 else map_option Suc (IndexByte cs sep))"

text \<open>The loop of \<^verbatim>\<open>genSplit\<close>: at most \<open>n\<close> cuts, the rest of the string last.\<close>

fun genSplit_loop :: "string \<Rightarrow> char \<Rightarrow> nat \<Rightarrow> string list" where
  "genSplit_loop s sep 0 = [s]"
| "genSplit_loop s sep (Suc n) =
     (case IndexByte s sep of
        None \<Rightarrow> [s]
      | Some m \<Rightarrow> take m s # genSplit_loop (drop (Suc m) s) sep n)"

text \<open>\<^verbatim>\<open>strings.SplitN(s, sep, n)\<close> for \<open>n \<ge> 0\<close>: nothing for \<open>n = 0\<close>, and \<open>n\<close> is capped
  at \<open>len(s) + 1\<close> before the loop.\<close>

definition SplitN :: "string \<Rightarrow> char \<Rightarrow> nat \<Rightarrow> string list" where
  "SplitN s sep n =
     (if n = 0 then [] else genSplit_loop s sep (min n (length s + 1) - 1))"

subsection \<open>Decimal numbers: the verb %d and strconv.ParseUint\<close>

definition digit_char :: "nat \<Rightarrow> char" where
  "digit_char d = ''0123456789'' ! d"

fun show_nat :: "nat \<Rightarrow> string" where
  "show_nat n = (if n < 10 then [digit_char n] else show_nat (n div 10) @ [digit_char (n mod 10)])"

declare show_nat.simps [simp del]

definition show_int :: "int \<Rightarrow> string" where
  "show_int i = (if i < 0 then CHR ''-'' # show_nat (nat (- i)) else show_nat (nat i))"

text \<open>
  The loop of \<^verbatim>\<open>strconv.ParseUint(s, 10, bitSize)\<close> over the bytes of \<open>s\<close>: a byte that is
  not a decimal digit is a syntax error, a value above \<open>maxVal\<close> is a range error. The
  cutoff is \<^verbatim>\<open>maxUint64/10 + 1\<close>, that is 1844674407370955162.
\<close>

fun ParseUint_loop :: "nat \<Rightarrow> nat \<Rightarrow> string \<Rightarrow> nat option" where
  "ParseUint_loop maxVal n [] = Some n"
| "ParseUint_loop maxVal n (c # cs) =
     (if (48::nat) \<le> of_char c \<and> of_char c \<le> (57::nat)
      then (if n \<ge> 1844674407370955162 then None
            else if n * 10 + (of_char c - 48) > maxVal then None
            else ParseUint_loop maxVal (n * 10 + (of_char c - 48)) cs)
      else None)"

definition ParseUint :: "string \<Rightarrow> nat \<Rightarrow> nat option" where
  "ParseUint s bitSize = (if s = [] then None else ParseUint_loop (2 ^ bitSize - 1) 0 s)"

subsection \<open>The verb %q (strconv.Quote)\<close>

definition hex_digit :: "nat \<Rightarrow> char" where
  "hex_digit d = ''0123456789abcdef'' ! d"

text \<open>
  The escape of one ASCII byte: the quote and the backslash are escaped, a printable
  byte is copied, and a control byte is written by its letter or as \<^verbatim>\<open>\xhh\<close>.
\<close>

definition quote_byte :: "char \<Rightarrow> string" where
  "quote_byte c =
     (if c = CHR 0x22 then [CHR 0x5C, CHR 0x22]
      else if c = CHR 0x5C then [CHR 0x5C, CHR 0x5C]
      else if (32::nat) \<le> of_char c \<and> of_char c \<le> (126::nat) then [c]
      else if c = CHR 0x07 then [CHR 0x5C, CHR ''a'']
      else if c = CHR 0x08 then [CHR 0x5C, CHR ''b'']
      else if c = CHR 0x0C then [CHR 0x5C, CHR ''f'']
      else if c = CHR 0x0A then [CHR 0x5C, CHR ''n'']
      else if c = CHR 0x0D then [CHR 0x5C, CHR ''r'']
      else if c = CHR 0x09 then [CHR 0x5C, CHR ''t'']
      else if c = CHR 0x0B then [CHR 0x5C, CHR ''v'']
      else [CHR 0x5C, CHR ''x'', hex_digit (of_char c div 16), hex_digit (of_char c mod 16)])"

text \<open>
  \<^verbatim>\<open>strconv.Quote\<close> works rune by rune. An ASCII byte is never part of a longer rune,
  so the input falls into ASCII bytes and maximal runs of bytes from 0x80 on, and what
  is written for such a run depends on the run alone (its printable runes are copied,
  the others and the invalid bytes are escaped). The Unicode tables behind that are
  not modelled: the function \<open>q\<close> that writes a run is a parameter. In the scan, \<open>run\<close>
  holds the bytes of the run being read.
\<close>

fun Quote_go :: "(string \<Rightarrow> string) \<Rightarrow> string \<Rightarrow> string \<Rightarrow> string" where
  "Quote_go q run [] = (if run = [] then [] else q run)"
| "Quote_go q run (c # cs) =
     (if (128::nat) \<le> of_char c then Quote_go q (run @ [c]) cs
      else (if run = [] then [] else q run) @ quote_byte c @ Quote_go q [] cs)"

definition Quote :: "(string \<Rightarrow> string) \<Rightarrow> string \<Rightarrow> string" where
  "Quote q s = CHR 0x22 # Quote_go q [] s @ [CHR 0x22]"

subsection \<open>time.Duration\<close>

text \<open>A \<^verbatim>\<open>time.Duration\<close> is an \<^verbatim>\<open>int64\<close> count of nanoseconds, and \<^verbatim>\<open>int\<close> has 64 bits;
  both are integers with the wrap-around of a product written out.\<close>

definition wrap64 :: "int \<Rightarrow> int" where
  "wrap64 x = (x + 2 ^ 63) mod 2 ^ 64 - 2 ^ 63"

text \<open>\<^verbatim>\<open>time.Duration(n) * time.Second\<close>\<close>

definition seconds_to_Duration :: "int \<Rightarrow> int" where
  "seconds_to_Duration n = wrap64 (n * 1000000000)"

text \<open>
  \<^verbatim>\<open>Duration.Seconds\<close> computes in \<^verbatim>\<open>float64\<close>. A \<^verbatim>\<open>float64\<close> is modelled by the rational
  it stands for, and an operation by the exact result rounded to the nearest
  \<^verbatim>\<open>float64\<close>, ties to the even significand (53 bits). Overflow and subnormal numbers
  do not occur here: every value is 0 or lies between a billionth and ten billion in
  magnitude.
\<close>

text \<open>The binary exponent of a positive rational \<open>x\<close>: the \<open>e\<close> with
  \<open>2 powi e \<le> x < 2 powi (e + 1)\<close>, found from the bit lengths of numerator and
  denominator.\<close>

definition f64_exponent :: "rat \<Rightarrow> int" where
  "f64_exponent x =
     (let (p, q) = quotient_of x;
          n = bitlen p - bitlen q
      in if 2 powi n \<le> x then n else n - 1)"

definition round_half_even :: "rat \<Rightarrow> int" where
  "round_half_even m =
     (let f = \<lfloor>m\<rfloor>; r = m - of_int f
      in if r < 1 / 2 then f
         else if 1 / 2 < r then f + 1
         else if even f then f else f + 1)"

definition f64_round :: "rat \<Rightarrow> rat" where
  "f64_round x =
     (if x = 0 then 0
      else let u = 2 powi (f64_exponent \<bar>x\<bar> - 52)
           in sgn x * of_int (round_half_even (\<bar>x\<bar> / u)) * u)"

text \<open>Go's integer division and remainder truncate towards zero.\<close>

definition int_quo :: "int \<Rightarrow> int \<Rightarrow> int" where
  "int_quo a b = (if (a < 0) = (b < 0) then \<bar>a\<bar> div \<bar>b\<bar> else - (\<bar>a\<bar> div \<bar>b\<bar>))"

definition int_rem :: "int \<Rightarrow> int \<Rightarrow> int" where
  "int_rem a b = a - int_quo a b * b"

text \<open>
  \<^verbatim>\<open>sec := d / Second; nsec := d % Second; return float64(sec) + float64(nsec)/1e9\<close>.
  The two conversions to \<^verbatim>\<open>float64\<close> are exact (both integers have fewer than 53
  bits); the division and the sum round.
\<close>

definition Duration_Seconds :: "int \<Rightarrow> rat" where
  "Duration_Seconds d =
     (let sec = int_quo d 1000000000;
          nsec = int_rem d 1000000000
      in f64_round (of_int sec + f64_round (of_int nsec / 1000000000)))"

text \<open>The conversion of a \<^verbatim>\<open>float64\<close> to \<^verbatim>\<open>int\<close> drops the fraction.\<close>

definition float_to_int :: "rat \<Rightarrow> int" where
  "float_to_int f = (if f < 0 then - \<lfloor>- f\<rfloor> else \<lfloor>f\<rfloor>)"

text \<open>\<^verbatim>\<open>int(d.Seconds())\<close>\<close>

definition Duration_Seconds_int :: "int \<Rightarrow> int" where
  "Duration_Seconds_int d = float_to_int (Duration_Seconds d)"

section \<open>The libdns record model\<close>

text \<open>
  The package \<^verbatim>\<open>github.com/libdns/libdns\<close> (v1.1.0) is a dependency of the provider. Its
  record types, their method \<^verbatim>\<open>RR()\<close> and the function \<^verbatim>\<open>RelativeName\<close> are modelled here
  after that package.
\<close>

record RR =
  RR_Name :: string
  RR_TTL :: int
  RR_Type :: string
  RR_Data :: string

text \<open>
  Two parts of Go's standard library are parameters. The addresses of \<^verbatim>\<open>net/netip\<close>: a
  type \<open>'ip\<close> of the valid addresses, with the parser, the printer and the test for an
  IPv6 address. And the text that \<^verbatim>\<open>strconv.Quote\<close> writes for a run of bytes from 0x80 on.
\<close>

record 'ip stdlib =
  ParseAddr :: "string \<Rightarrow> 'ip option"
  Addr_String :: "'ip \<Rightarrow> string"
  Addr_Is6 :: "'ip \<Rightarrow> bool"
  Quote_run :: "string \<Rightarrow> string"

text \<open>
  The record types of libdns, with their fields: name, TTL, and the fields of the type
  (a \<^verbatim>\<open>libdns.SRV\<close> has its service and its transport first). A \<^verbatim>\<open>libdns.RR\<close> is itself
  a record (\<open>Raw\<close>). Of a \<^verbatim>\<open>libdns.ServiceBinding\<close> the provider reads the priority and
  the result of \<^verbatim>\<open>RR()\<close> only, which the constructor carries.
\<close>

datatype 'ip Record =
    Address string int 'ip
  | MX string int "16 word" string
  | TXT string int string
  | CNAME string int string
  | NS string int string
  | SRV string string string int "16 word" "16 word" "16 word" string
  | CAA string int "8 word" string string
  | Raw RR
  | ServiceBinding RR "16 word"

text \<open>
  The method \<^verbatim>\<open>RR()\<close> of each record type (\<open>toRR\<close> here, \<open>RR\<close> being the name of the
  record type). The owner name of an SRV record is its name when its service and its
  transport are both empty, and \<^verbatim>\<open>_service._transport.name\<close> otherwise. The data of an
  MX, SRV or CAA record is empty when all the fields of the type are zero, and the
  formatted fields otherwise.
\<close>

fun toRR :: "'ip stdlib \<Rightarrow> 'ip Record \<Rightarrow> RR" where
  "toRR ni (Address name ttl ip) =
     \<lparr>RR_Name = name, RR_TTL = ttl,
      RR_Type = (if Addr_Is6 ni ip then ''AAAA'' else ''A''),
      RR_Data = Addr_String ni ip\<rparr>"
| "toRR ni (MX name ttl pref target) =
     \<lparr>RR_Name = name, RR_TTL = ttl, RR_Type = ''MX'',
      RR_Data = (if pref = 0 \<and> target = [] then []
                 else show_nat (unat pref) @ '' '' @ target)\<rparr>"
| "toRR ni (TXT name ttl txt) =
     \<lparr>RR_Name = name, RR_TTL = ttl, RR_Type = ''TXT'', RR_Data = txt\<rparr>"
| "toRR ni (CNAME name ttl target) =
     \<lparr>RR_Name = name, RR_TTL = ttl, RR_Type = ''CNAME'', RR_Data = target\<rparr>"
| "toRR ni (NS name ttl target) =
     \<lparr>RR_Name = name, RR_TTL = ttl, RR_Type = ''NS'', RR_Data = target\<rparr>"
| "toRR ni (SRV service transport name ttl priority weight port target) =
     \<lparr>RR_Name = (if service = [] \<and> transport = [] then name
                 else ''_'' @ service @ ''._'' @ transport @ ''.'' @ name),
      RR_TTL = ttl, RR_Type = ''SRV'',
      RR_Data = (if priority = 0 \<and> weight = 0 \<and> port = 0 \<and> target = [] then []
                 else show_nat (unat priority) @ '' '' @ show_nat (unat weight) @ '' ''
                      @ show_nat (unat port) @ '' '' @ target)\<rparr>"
| "toRR ni (CAA name ttl flags tag val) =
     \<lparr>RR_Name = name, RR_TTL = ttl, RR_Type = ''CAA'',
      RR_Data = (if flags = 0 \<and> tag = [] \<and> val = [] then []
                 else show_nat (unat flags) @ '' '' @ tag @ '' ''
                      @ Quote (Quote_run ni) val)\<rparr>"
| "toRR ni (Raw rr) = rr"
| "toRR ni (ServiceBinding rr priority) = rr"

text \<open>The field \<^verbatim>\<open>Name\<close> of a record (a service binding is carried by its \<^verbatim>\<open>RR()\<close> and
  priority only).\<close>

fun Record_Name :: "'ip Record \<Rightarrow> string option" where
  "Record_Name (Address name ttl ip) = Some name"
| "Record_Name (MX name ttl pref target) = Some name"
| "Record_Name (TXT name ttl txt) = Some name"
| "Record_Name (CNAME name ttl target) = Some name"
| "Record_Name (NS name ttl target) = Some name"
| "Record_Name (SRV service transport name ttl priority weight port target) = Some name"
| "Record_Name (CAA name ttl flags tag val) = Some name"
| "Record_Name (Raw rr) = Some (RR_Name rr)"
| "Record_Name (ServiceBinding rr priority) = None"

text \<open>
  \<^verbatim>\<open>libdns.RelativeName(fqdn, zone)\<close>: one trailing dot is dropped from each argument,
  then the zone and the dot before it are cut off the name; when nothing is left, the
  result is \<^verbatim>\<open>@\<close>.
\<close>

definition RelativeName :: "string \<Rightarrow> string \<Rightarrow> string" where
  "RelativeName fq zone =
     (let rel = TrimSuffix (TrimSuffix (TrimSuffix fq ''.'') (TrimSuffix zone ''.'')) ''.''
      in if rel = [] then ''@'' else rel)"

section \<open>The regfish API client\<close>

text \<open>The record of \<^verbatim>\<open>regfish-dnsapi-go\<close>, with the fields the provider reads and writes.
  The priority is a pointer: \<open>None\<close> is \<^verbatim>\<open>nil\<close>.\<close>

record rfRecord =
  ID :: int
  Name :: string
  Type :: string
  Data :: string
  TTL :: int
  Priority :: "int option"

text \<open>
  An error is a message; \<^verbatim>\<open>fmt.Errorf\<close> with the verb \<^verbatim>\<open>%w\<close> keeps the error it wraps.
  The run-time panic of a slice expression out of range is a failure of its own.
\<close>

datatype error =
    Error string
  | Wrapped string error
  | Panic_slice_bounds

fun errmsg :: "error \<Rightarrow> string" where
  "errmsg (Error m) = m"
| "errmsg (Wrapped m e) = m"
| "errmsg Panic_slice_bounds = ''runtime error: slice bounds out of range [:-1]''"

text \<open>\<^verbatim>\<open>fmt.Errorf(pre + "%w", err)\<close>\<close>

definition Errorf_w :: "string \<Rightarrow> error \<Rightarrow> error" where
  "Errorf_w pre e = Wrapped (pre @ errmsg e) e"

text \<open>
  The client is a parameter: four operations on a state \<open>'s\<close> of the provider's side,
  each returning its result and the next state.
\<close>

record 's Client =
  GetRecordsByDomain :: "string \<Rightarrow> 's \<Rightarrow> (error + rfRecord list) \<times> 's"
  CreateRecord :: "rfRecord \<Rightarrow> 's \<Rightarrow> (error + rfRecord) \<times> 's"
  UpdateRecordById :: "int \<Rightarrow> rfRecord \<Rightarrow> 's \<Rightarrow> (error + rfRecord) \<times> 's"
  DeleteRecord :: "int \<Rightarrow> 's \<Rightarrow> error option \<times> 's"

section \<open>The provider\<close>

text \<open>
  The functions of \<^verbatim>\<open>provider.go\<close> and of the client file. The mutex and the one-time
  construction of the client are not part of the model: every operation runs alone on
  the client it is given.
\<close>

subsection \<open>fqdn\<close>

definition fqdn :: "string \<Rightarrow> string \<Rightarrow> string" where
  "fqdn name zone =
     (let name1 = TrimRight name ''.'';
          zone1 = TrimRight zone ''.'';
          name2 = (if \<not> HasSuffix name1 zone1 then name1 @ ''.'' @ zone1 else name1)
      in name2 @ ''.'')"

subsection \<open>convertToLibdnsRecord\<close>

text \<open>
  The slice \<^verbatim>\<open>rec.Name[:len(rec.Name)-1]\<close> panics on the empty name. Every other path
  returns a record. The SRV record is built without a service and a transport (both
  empty), with the relative name as its name.
\<close>

definition convertToLibdnsRecord :: "'ip stdlib \<Rightarrow> rfRecord \<Rightarrow> string \<Rightarrow> error + 'ip Record" where
  "convertToLibdnsRecord ni rec zone =
     (if Name rec = [] then Inl Panic_slice_bounds
      else
        let relName = RelativeName (butlast (Name rec)) zone;
            ttl = seconds_to_Duration (TTL rec);
            fallback = Raw \<lparr>RR_Name = relName, RR_TTL = ttl, RR_Type = Type rec, RR_Data = Data rec\<rparr>;
            ty = ToUpper (Type rec)
        in Inr
          (if ty = ''A'' \<or> ty = ''AAAA'' then
             (case ParseAddr ni (Data rec) of
                None \<Rightarrow> fallback
              | Some ip \<Rightarrow> Address relName ttl ip)
           else if ty = ''MX'' then
             (let parts = Fields (Data rec)
              in if length parts \<noteq> 2 then fallback
                 else (case ParseUint (parts ! 0) 16 of
                         None \<Rightarrow> fallback
                       | Some pref \<Rightarrow> MX relName ttl (of_nat pref) (parts ! 1)))
           else if ty = ''TXT'' then TXT relName ttl (Data rec)
           else if ty = ''CNAME'' then CNAME relName ttl (Data rec)
           else if ty = ''NS'' then NS relName ttl (Data rec)
           else if ty = ''SRV'' then
             (let parts = Fields (Data rec)
              in if length parts \<noteq> 4 then fallback
                 else (case (ParseUint (parts ! 0) 16, ParseUint (parts ! 1) 16,
                             ParseUint (parts ! 2) 16) of
                         (Some priority, Some weight, Some port) \<Rightarrow>
                           SRV [] [] relName ttl (of_nat priority) (of_nat weight) (of_nat port)
                             (parts ! 3)
                       | _ \<Rightarrow> fallback))
           else if ty = ''CAA'' then
             (let parts = SplitN (Data rec) CHR '' '' 3
              in if length parts \<noteq> 3 then fallback
                 else (case ParseUint (parts ! 0) 8 of
                         None \<Rightarrow> fallback
                       | Some flags \<Rightarrow> CAA relName ttl (of_nat flags) (parts ! 1) (parts ! 2)))
           else fallback))"

subsection \<open>convertFromLibdnsRecord\<close>

definition convertFromLibdnsRecord :: "'ip stdlib \<Rightarrow> 'ip Record \<Rightarrow> string \<Rightarrow> rfRecord" where
  "convertFromLibdnsRecord ni record zone =
     (let rr = toRR ni record;
          rec = \<lparr>ID = 0, Name = fqdn (RR_Name rr) zone, Type = RR_Type rr, Data = RR_Data rr,
                 TTL = Duration_Seconds_int (RR_TTL rr), Priority = None\<rparr>
      in case record of
           MX name ttl pref target \<Rightarrow> rec\<lparr>Priority := Some (uint pref)\<rparr>
         | SRV service transport name ttl priority weight port target \<Rightarrow>
             rec\<lparr>Priority := Some (uint priority)\<rparr>
         | _ \<Rightarrow> rec)"

subsection \<open>upsertRecord\<close>

text \<open>
  The record that \<^verbatim>\<open>upsertRecord\<close> sends. In its type switch the case of
  \<^verbatim>\<open>libdns.SRV\<close> has an empty body, and a Go case does not fall through to the next.
\<close>

definition upsert_update_rec :: "'ip stdlib \<Rightarrow> 'ip Record \<Rightarrow> string \<Rightarrow> rfRecord" where
  "upsert_update_rec ni record zone =
     (let rr = toRR ni record;
          update_rec = \<lparr>ID = 0, Name = fqdn (RR_Name rr) zone, Type = RR_Type rr,
                        Data = RR_Data rr, TTL = Duration_Seconds_int (RR_TTL rr),
                        Priority = None\<rparr>
      in case record of
           SRV service transport name ttl priority weight port target \<Rightarrow> update_rec
         | ServiceBinding sb priority \<Rightarrow> update_rec\<lparr>Priority := Some (uint priority)\<rparr>
         | MX name ttl pref target \<Rightarrow> update_rec\<lparr>Priority := Some (uint pref)\<rparr>
         | _ \<Rightarrow> update_rec)"

text \<open>The loop over the fetched records: the first one with the name and type of the
  record is updated; when the loop ends without one, the record is created.\<close>

fun upsert_loop ::
  "'s Client \<Rightarrow> string \<Rightarrow> RR \<Rightarrow> rfRecord \<Rightarrow> rfRecord list \<Rightarrow> 's \<Rightarrow> (error + rfRecord) \<times> 's" where
  "upsert_loop c zone rr update_rec [] s = CreateRecord c update_rec s"
| "upsert_loop c zone rr update_rec (rec # recs) s =
     (if fqdn (Name rec) zone = fqdn (RR_Name rr) zone \<and> Type rec = RR_Type rr
      then UpdateRecordById c (ID rec) update_rec s
      else upsert_loop c zone rr update_rec recs s)"

definition upsertRecord ::
  "'s Client \<Rightarrow> 'ip stdlib \<Rightarrow> 'ip Record \<Rightarrow> string \<Rightarrow> 's \<Rightarrow> (error + rfRecord) \<times> 's" where
  "upsertRecord c ni record zone s =
     (case GetRecordsByDomain c zone s of
        (Inl err, s1) \<Rightarrow> (Inl err, s1)
      | (Inr records, s1) \<Rightarrow>
          upsert_loop c zone (toRR ni record) (upsert_update_rec ni record zone) records s1)"

subsection \<open>GetRecords\<close>

fun get_loop :: "'ip stdlib \<Rightarrow> string \<Rightarrow> rfRecord list \<Rightarrow> 'ip Record list \<Rightarrow> error + 'ip Record list" where
  "get_loop ni zone [] libdnsRecords = Inr libdnsRecords"
| "get_loop ni zone (rec # recs) libdnsRecords =
     (case convertToLibdnsRecord ni rec zone of
        Inl p \<Rightarrow> Inl p
      | Inr record \<Rightarrow> get_loop ni zone recs (libdnsRecords @ [record]))"

definition GetRecords ::
  "'s Client \<Rightarrow> 'ip stdlib \<Rightarrow> string \<Rightarrow> 's \<Rightarrow> (error + 'ip Record list) \<times> 's" where
  "GetRecords c ni zone s =
     (case GetRecordsByDomain c zone s of
        (Inl err, s1) \<Rightarrow> (Inl (Errorf_w (''failed to get records for zone '' @ zone @ '': '') err), s1)
      | (Inr records, s1) \<Rightarrow> (get_loop ni zone records [], s1))"

subsection \<open>AppendRecords\<close>

fun append_loop ::
  "'s Client \<Rightarrow> 'ip stdlib \<Rightarrow> string \<Rightarrow> 'ip Record list \<Rightarrow> 'ip Record list \<Rightarrow> 's
   \<Rightarrow> (error + 'ip Record list) \<times> 's" where
  "append_loop c ni zone [] createdRecords s = (Inr createdRecords, s)"
| "append_loop c ni zone (record # records) createdRecords s =
     (case CreateRecord c (convertFromLibdnsRecord ni record zone) s of
        (Inl err, s1) \<Rightarrow>
          (Inl (Errorf_w (''failed to create record '' @ RR_Name (toRR ni record) @ '': '') err), s1)
      | (Inr createdRec, s1) \<Rightarrow>
          (case convertToLibdnsRecord ni createdRec zone of
             Inl p \<Rightarrow> (Inl p, s1)
           | Inr createdRecord \<Rightarrow>
               append_loop c ni zone records (createdRecords @ [createdRecord]) s1))"

definition AppendRecords ::
  "'s Client \<Rightarrow> 'ip stdlib \<Rightarrow> string \<Rightarrow> 'ip Record list \<Rightarrow> 's \<Rightarrow> (error + 'ip Record list) \<times> 's" where
  "AppendRecords c ni zone records s = append_loop c ni zone records [] s"

subsection \<open>SetRecords\<close>

fun set_loop ::
  "'s Client \<Rightarrow> 'ip stdlib \<Rightarrow> string \<Rightarrow> 'ip Record list \<Rightarrow> 'ip Record list \<Rightarrow> 's
   \<Rightarrow> (error + 'ip Record list) \<times> 's" where
  "set_loop c ni zone [] updatedRecords s = (Inr updatedRecords, s)"
| "set_loop c ni zone (record # records) updatedRecords s =
     (case upsertRecord c ni record zone s of
        (Inl err, s1) \<Rightarrow>
          (Inl (Errorf_w (''failed to update record '' @ RR_Name (toRR ni record) @ '': '') err), s1)
      | (Inr updateRec, s1) \<Rightarrow>
          (case convertToLibdnsRecord ni updateRec zone of
             Inl p \<Rightarrow> (Inl p, s1)
           | Inr updatedRecord \<Rightarrow>
               set_loop c ni zone records (updatedRecords @ [updatedRecord]) s1))"

definition SetRecords ::
  "'s Client \<Rightarrow> 'ip stdlib \<Rightarrow> string \<Rightarrow> 'ip Record list \<Rightarrow> 's \<Rightarrow> (error + 'ip Record list) \<times> 's" where
  "SetRecords c ni zone records s = set_loop c ni zone records [] s"

subsection \<open>DeleteRecords\<close>

text \<open>The inner loop: the id of the first fetched record with the name, type and data
  of the record, and 0 when there is none.\<close>

fun find_rrid :: "string \<Rightarrow> RR \<Rightarrow> rfRecord list \<Rightarrow> int" where
  "find_rrid zone rr [] = 0"
| "find_rrid zone rr (rec # recs) =
     (if fqdn (Name rec) zone = fqdn (RR_Name rr) zone \<and> Type rec = RR_Type rr
         \<and> Data rec = RR_Data rr
      then ID rec
      else find_rrid zone rr recs)"

fun delete_loop ::
  "'s Client \<Rightarrow> 'ip stdlib \<Rightarrow> string \<Rightarrow> rfRecord list \<Rightarrow> 'ip Record list \<Rightarrow> 'ip Record list \<Rightarrow> 's
   \<Rightarrow> (error + 'ip Record list) \<times> 's" where
  "delete_loop c ni zone all_records [] deletedRecords s = (Inr deletedRecords, s)"
| "delete_loop c ni zone all_records (record # records) deletedRecords s =
     (let rr = toRR ni record;
          rrid = find_rrid zone rr all_records
      in if rrid = 0
         then (Inl (Error (''record '' @ RR_Name rr @ '' of type '' @ RR_Type rr
                           @ '' with data '' @ RR_Data rr @ '' not found'')), s)
         else (case DeleteRecord c rrid s of
                 (Some err, s1) \<Rightarrow>
                   (Inl (Errorf_w (''failed to delete record ID '' @ show_int rrid @ '': '') err), s1)
               | (None, s1) \<Rightarrow>
                   delete_loop c ni zone all_records records (deletedRecords @ [record]) s1))"

definition DeleteRecords ::
  "'s Client \<Rightarrow> 'ip stdlib \<Rightarrow> string \<Rightarrow> 'ip Record list \<Rightarrow> 's \<Rightarrow> (error + 'ip Record list) \<times> 's" where
  "DeleteRecords c ni zone records s =
     (case GetRecordsByDomain c zone s of
        (Inl err, s1) \<Rightarrow> (Inl (Errorf_w (''failed to get records for zone '' @ zone @ '': '') err), s1)
      | (Inr all_records, s1) \<Rightarrow> delete_loop c ni zone all_records records [] s1)"

section \<open>Instances of the parameters\<close>

text \<open>
  Two instances on which the model runs: IPv4 addresses in dotted-decimal form for the
  addresses (with every byte from 0x80 on quoted as \<^verbatim>\<open>\xhh\<close>), and an in-memory store for
  the client. The store assigns ids from a
  counter, rejects a record whose TTL is under 60 seconds, refuses to delete a locked
  record, and logs every call.
\<close>

definition octet_ok :: "string \<Rightarrow> bool" where
  "octet_ok p = (ParseUint p 8 \<noteq> None \<and> (length p = 1 \<or> take 1 p \<noteq> ''0''))"

definition ParseAddr4 :: "string \<Rightarrow> 8 word list option" where
  "ParseAddr4 s =
     (let parts = genSplit_loop s (CHR ''.'') (length s)
      in if length parts = 4 \<and> list_all octet_ok parts
         then Some (map (\<lambda>p. of_nat (case ParseUint p 8 of Some v \<Rightarrow> v | None \<Rightarrow> 0)) parts)
         else None)"

fun join_dots :: "string list \<Rightarrow> string" where
  "join_dots [] = []"
| "join_dots [x] = x"
| "join_dots (x # y # ys) = x @ ''.'' @ join_dots (y # ys)"

definition ipv4 :: "8 word list stdlib" where
  "ipv4 = \<lparr>ParseAddr = ParseAddr4,
           Addr_String = (\<lambda>ip. join_dots (map (\<lambda>b. show_nat (unat b)) ip)),
           Addr_Is6 = (\<lambda>ip. False),
           Quote_run = (\<lambda>run. concat (map quote_byte run))\<rparr>"

datatype call =
    Call_Get string
  | Call_Create rfRecord
  | Call_Update int rfRecord
  | Call_Delete int

record mem_state =
  stored :: "rfRecord list"
  next_id :: int
  locked :: "int list"
  calls :: "call list"

definition mem_get :: "string \<Rightarrow> mem_state \<Rightarrow> (error + rfRecord list) \<times> mem_state" where
  "mem_get zone s = (Inr (stored s), s\<lparr>calls := calls s @ [Call_Get zone]\<rparr>)"

definition mem_create :: "rfRecord \<Rightarrow> mem_state \<Rightarrow> (error + rfRecord) \<times> mem_state" where
  "mem_create rec s =
     (if TTL rec < 60 then (Inl (Error ''ttl too low''), s\<lparr>calls := calls s @ [Call_Create rec]\<rparr>)
      else (Inr (rec\<lparr>ID := next_id s\<rparr>),
            s\<lparr>stored := stored s @ [rec\<lparr>ID := next_id s\<rparr>], next_id := next_id s + 1,
              calls := calls s @ [Call_Create rec]\<rparr>))"

definition mem_update :: "int \<Rightarrow> rfRecord \<Rightarrow> mem_state \<Rightarrow> (error + rfRecord) \<times> mem_state" where
  "mem_update i rec s =
     (if TTL rec < 60 then (Inl (Error ''ttl too low''), s\<lparr>calls := calls s @ [Call_Update i rec]\<rparr>)
      else if i \<notin> set (map ID (stored s))
      then (Inl (Error ''record not found''), s\<lparr>calls := calls s @ [Call_Update i rec]\<rparr>)
      else (Inr (rec\<lparr>ID := i\<rparr>),
            s\<lparr>stored := map (\<lambda>r. if ID r = i then rec\<lparr>ID := i\<rparr> else r) (stored s),
              calls := calls s @ [Call_Update i rec]\<rparr>))"

definition mem_delete :: "int \<Rightarrow> mem_state \<Rightarrow> error option \<times> mem_state" where
  "mem_delete i s =
     (if i \<in> set (locked s)
      then (Some (Error ''record is locked''), s\<lparr>calls := calls s @ [Call_Delete i]\<rparr>)
      else if i \<notin> set (map ID (stored s))
      then (Some (Error ''record not found''), s\<lparr>calls := calls s @ [Call_Delete i]\<rparr>)
      else (None, s\<lparr>stored := filter (\<lambda>r. ID r \<noteq> i) (stored s),
                     calls := calls s @ [Call_Delete i]\<rparr>))"

definition mem_client :: "mem_state Client" where
  "mem_client =
     \<lparr>GetRecordsByDomain = mem_get, CreateRecord = mem_create,
      UpdateRecordById = mem_update, DeleteRecord = mem_delete\<rparr>"

definition rf :: "int \<Rightarrow> string \<Rightarrow> string \<Rightarrow> string \<Rightarrow> rfRecord" where
  "rf i n t d = \<lparr>ID = i, Name = n, Type = t, Data = d, TTL = 300, Priority = None\<rparr>"

definition mem0 :: "rfRecord list \<Rightarrow> int list \<Rightarrow> mem_state" where
  "mem0 rs ls = \<lparr>stored = rs, next_id = 100, locked = ls, calls = []\<rparr>"

section \<open>The two match conditions\<close>

text \<open>
  The condition of the loop of \<^verbatim>\<open>upsertRecord\<close> (name and type) and the condition of the
  loop of \<^verbatim>\<open>DeleteRecords\<close> (name, type and data), as they stand in the loops above.
\<close>

abbreviation same_name_type :: "string \<Rightarrow> RR \<Rightarrow> rfRecord \<Rightarrow> bool" where
  "same_name_type zone rr rec \<equiv>
     fqdn (Name rec) zone = fqdn (RR_Name rr) zone \<and> Type rec = RR_Type rr"

abbreviation same_name_type_data :: "string \<Rightarrow> RR \<Rightarrow> rfRecord \<Rightarrow> bool" where
  "same_name_type_data zone rr rec \<equiv>
     fqdn (Name rec) zone = fqdn (RR_Name rr) zone \<and> Type rec = RR_Type rr
     \<and> Data rec = RR_Data rr"

text \<open>
  The match rule in the words of the specification (section 4.3), for a desired record
  whose provider id may be known: rule 1 compares ids, rule 2 compares name and type.
\<close>

definition spec_match :: "int option \<Rightarrow> string \<Rightarrow> RR \<Rightarrow> rfRecord \<Rightarrow> bool" where
  "spec_match desired_id zone rr cand =
     (desired_id = Some (ID cand) \<or> same_name_type zone rr cand)"

section \<open>Well-formed records\<close>

text \<open>
  The records for which the round trip of the converter is stated. A name is
  zone-relative for a zone when it is not empty, does not end with a dot and does not
  end with the zone (stripped of its dots), for a zone with at most one trailing dot. A
  TTL is a whole number of seconds within the range of a \<^verbatim>\<open>time.Duration\<close>. The target
  of an MX or SRV record is one field without white space. An SRV record has no service
  and no transport, as the SRV record of the specification and as the provider builds
  it.
\<close>

definition wf_name :: "string \<Rightarrow> string \<Rightarrow> bool" where
  "wf_name name zone =
     (name \<noteq> [] \<and> last name \<noteq> CHR ''.''
      \<and> TrimSuffix zone ''.'' = TrimRight zone ''.''
      \<and> (TrimRight zone ''.'' = [] \<or> \<not> HasSuffix name (TrimRight zone ''.'')))"

definition wf_ttl :: "int \<Rightarrow> bool" where
  "wf_ttl ttl = (ttl mod 1000000000 = 0 \<and> - (2 ^ 63) \<le> ttl \<and> ttl < 2 ^ 63)"

fun wf_record :: "'ip stdlib \<Rightarrow> string \<Rightarrow> 'ip Record \<Rightarrow> bool" where
  "wf_record ni zone (Address name ttl ip) =
     (wf_name name zone \<and> wf_ttl ttl \<and> ParseAddr ni (Addr_String ni ip) = Some ip)"
| "wf_record ni zone (MX name ttl pref target) =
     (wf_name name zone \<and> wf_ttl ttl \<and> Fields target = [target])"
| "wf_record ni zone (TXT name ttl txt) = (wf_name name zone \<and> wf_ttl ttl)"
| "wf_record ni zone (CNAME name ttl target) = (wf_name name zone \<and> wf_ttl ttl)"
| "wf_record ni zone (NS name ttl target) = (wf_name name zone \<and> wf_ttl ttl)"
| "wf_record ni zone (SRV service transport name ttl priority weight port target) =
     (service = [] \<and> transport = [] \<and> wf_name name zone \<and> wf_ttl ttl
      \<and> Fields target = [target])"
| "wf_record ni zone (CAA name ttl flags tag val) = False"
| "wf_record ni zone (Raw rr) = False"
| "wf_record ni zone (ServiceBinding rr priority) = False"

section \<open>Durations of whole seconds\<close>

text \<open>An integer of fewer than 53 bits is a \<^verbatim>\<open>float64\<close>, so that the seconds of a
  duration of whole seconds are computed exactly.\<close>

lemma round_half_even_int: "round_half_even (of_int k) = k"
  by (simp add: round_half_even_def)

lemma f64_exponent_int_le:
  assumes "0 < s" "s < 2 ^ 53"
  shows "f64_exponent (of_int s) \<le> 52"
proof -
  from assms have "bitlen s \<le> 53" by (simp add: bitlen_le_iff_power)
  moreover have "bitlen 1 = 1" by (simp add: bitlen_alt_def)
  ultimately show ?thesis
    by (auto simp: f64_exponent_def Let_def)
qed

lemma f64_round_nat:
  assumes "0 < s" "s < 2 ^ 53"
  shows "f64_round (of_int s) = of_int s"
proof -
  let ?e = "f64_exponent (of_int s)"
  from f64_exponent_int_le [OF assms] have e: "?e \<le> 52" .
  define k where "k = nat (52 - ?e)"
  from e have u: "(2::rat) powi (?e - 52) = inverse (2 ^ k)"
    by (auto simp: power_int_def k_def power_one_over inverse_eq_divide)
  have m: "of_int s / inverse ((2::rat) ^ k) = of_int (s * 2 ^ k)"
    by (simp add: field_simps)
  from assms(1) have a: "\<bar>rat_of_int s\<bar> = of_int s" "sgn (rat_of_int s) = 1" "rat_of_int s \<noteq> 0"
    by simp_all
  show ?thesis
    unfolding f64_round_def Let_def a u m round_half_even_int
    using a(3) by simp
qed

lemma f64_round_int:
  assumes "\<bar>s\<bar> < 2 ^ 53"
  shows "f64_round (of_int s) = of_int s"
proof (cases "s = 0")
  case True
  then show ?thesis by (simp add: f64_round_def)
next
  case False
  then have p: "0 < \<bar>s\<bar>" by simp
  have "f64_round (of_int s) = sgn (of_int s) * f64_round (of_int \<bar>s\<bar>)"
    using False by (simp add: f64_round_def Let_def)
  also have "\<dots> = sgn (of_int s) * of_int \<bar>s\<bar>"
    by (simp only: f64_round_nat [OF p assms])
  also have "\<dots> = of_int s"
    using sgn_mult_abs [of "rat_of_int s"] by simp
  finally show ?thesis .
qed

lemma Duration_Seconds_int_whole:
  assumes "d mod 1000000000 = 0" "- (2 ^ 63) \<le> d" "d < 2 ^ 63"
  shows "Duration_Seconds_int d = d div 1000000000"
proof -
  from assms(1) have "1000000000 dvd d" by (simp add: mod_0_imp_dvd)
  then obtain j where d: "d = 1000000000 * j" by (rule dvdE)
  have a: "\<bar>1000000000 * j\<bar> div \<bar>1000000000::int\<bar> = \<bar>j\<bar>"
    by (simp add: abs_mult)
  have q: "int_quo d 1000000000 = j"
    unfolding d int_quo_def a by (simp add: mult_less_0_iff abs_if)
  then have r: "int_rem d 1000000000 = 0"
    by (simp add: int_rem_def d)
  from assms(2,3) have "\<bar>j\<bar> < 2 ^ 53" unfolding d by simp
  then have fr: "f64_round (of_int j) = of_int j" by (rule f64_round_int)
  have f0: "f64_round 0 = 0" by (simp add: f64_round_def)
  have "Duration_Seconds d = of_int j"
    unfolding Duration_Seconds_def Let_def q r by (simp add: f0 fr)
  then show ?thesis
    by (simp add: Duration_Seconds_int_def float_to_int_def d)
qed

lemmas run_defs =
  fqdn_def TrimRight_def HasSuffix_def TrimSuffix_def RelativeName_def
  upsertRecord_def upsert_update_rec_def convertFromLibdnsRecord_def convertToLibdnsRecord_def
  mem_client_def mem_get_def mem_create_def mem_update_def mem_delete_def
  AppendRecords_def SetRecords_def DeleteRecords_def GetRecords_def
  Duration_Seconds_int_whole seconds_to_Duration_def wrap64_def
  ipv4_def ParseAddr4_def octet_ok_def ParseUint_def Fields_def SplitN_def
  ascii_space_def unicode_space2_def unicode_space3_def upper_byte_def digit_char_def
  hex_digit_def show_nat.simps show_int_def Errorf_w_def Quote_def quote_byte_def Let_def
  rf_def mem0_def spec_match_def

section \<open>Name normalisation\<close>

lemma HasSuffix_suffix: "HasSuffix s suf = suffix suf s"
  unfolding HasSuffix_def suffix_def
  by (metis append_eq_conv_conj append_take_drop_id diff_add_inverse2 le_add2 length_append)

lemma TrimRight_split: "\<exists>k. s = TrimRight s ''.'' @ replicate k (CHR ''.'')"
proof -
  have "rev s = takeWhile (\<lambda>c. c = CHR ''.'') (rev s) @ dropWhile (\<lambda>c. c = CHR ''.'') (rev s)"
    by simp
  then have "s = rev (dropWhile (\<lambda>c. c = CHR ''.'') (rev s)) @ rev (takeWhile (\<lambda>c. c = CHR ''.'') (rev s))"
    by (metis rev_append rev_rev_ident)
  moreover have "\<exists>k. rev (takeWhile (\<lambda>c. c = CHR ''.'') (rev s)) = replicate k (CHR ''.'')"
  proof -
    have "\<forall>x \<in> set (rev (takeWhile (\<lambda>c. c = CHR ''.'') (rev s))). x = CHR ''.''"
      by (auto dest: set_takeWhileD)
    then show ?thesis
      by (metis replicate_eqI)
  qed
  ultimately show ?thesis
    by (auto simp: TrimRight_def)
qed

lemma TrimRight_no_dot: "TrimRight s ''.'' = [] \<or> last (TrimRight s ''.'') \<noteq> CHR ''.''"
  using hd_dropWhile [of "\<lambda>c. c = CHR ''.''" "rev s"]
  by (auto simp: TrimRight_def last_rev)

lemma TrimRight_id: "s = [] \<or> last s \<noteq> CHR ''.'' \<Longrightarrow> TrimRight s ''.'' = s"
  by (cases s rule: rev_cases) (auto simp: TrimRight_def)

lemma TrimRight_snoc_dot: "TrimRight (s @ ''.'') ''.'' = TrimRight s ''.''"
  by (simp add: TrimRight_def)

lemma TrimRight_idem: "TrimRight (TrimRight s ''.'') ''.'' = TrimRight s ''.''"
  using TrimRight_no_dot [of s] by (rule TrimRight_id)

lemma fqdn_cases:
  "fqdn name zone =
     (if suffix (TrimRight zone ''.'') (TrimRight name ''.'')
      then TrimRight name ''.'' @ ''.''
      else TrimRight name ''.'' @ ''.'' @ TrimRight zone ''.'' @ ''.'')"
  by (simp add: fqdn_def Let_def HasSuffix_suffix)

lemma fqdn_single_dot: "\<exists>b. fqdn name zone = b @ ''.'' \<and> (b = [] \<or> last b \<noteq> CHR ''.'')"
proof (cases "suffix (TrimRight zone ''.'') (TrimRight name ''.'')")
  case True
  then show ?thesis using TrimRight_no_dot [of name] by (simp add: fqdn_cases)
next
  case False
  then have nz: "TrimRight zone ''.'' \<noteq> []" by auto
  with TrimRight_no_dot [of zone] have "last (TrimRight zone ''.'') \<noteq> CHR ''.''" by simp
  with nz False show ?thesis
    by (intro exI [of _ "TrimRight name ''.'' @ ''.'' @ TrimRight zone ''.''"]) (simp add: fqdn_cases)
qed


lemma fqdn_idem: "fqdn (fqdn name zone) zone = fqdn name zone"
proof (cases "suffix (TrimRight zone ''.'') (TrimRight name ''.'')")
  case True
  then show ?thesis
    by (simp add: fqdn_cases TrimRight_snoc_dot TrimRight_idem)
next
  case False
  then have nz: "TrimRight zone ''.'' \<noteq> []" by auto
  with TrimRight_no_dot [of zone] have l: "last (TrimRight zone ''.'') \<noteq> CHR ''.''" by simp
  let ?b = "TrimRight name ''.'' @ ''.'' @ TrimRight zone ''.''"
  have f: "fqdn name zone = ?b @ ''.''" using False by (simp add: fqdn_cases)
  have t: "TrimRight (?b @ ''.'') ''.'' = ?b"
    using nz l by (subst TrimRight_snoc_dot, intro TrimRight_id) simp
  have s: "suffix (TrimRight zone ''.'') ?b"
    by (simp add: suffix_def)
  have "fqdn (?b @ ''.'') zone = ?b @ ''.''"
    by (simp only: fqdn_cases t s if_True)
  then show ?thesis by (simp only: f)
qed

text \<open>
  Claim C9. For every name and zone, \<open>fqdn\<close> strips all trailing dots from both (what is
  left is the argument without a run of dots at its end, and does not end with a dot),
  appends a dot and the stripped zone when the stripped name does not already end with
  the stripped zone, and returns a string that ends with exactly one dot. Applying
  \<open>fqdn\<close> to its own result gives the same result.
\<close>

theorem C9_fqdn_normalize_idempotent:
  "(\<exists>j. name = TrimRight name ''.'' @ replicate j (CHR ''.''))
   \<and> (TrimRight name ''.'' = [] \<or> last (TrimRight name ''.'') \<noteq> CHR ''.'')
   \<and> (\<exists>k. zone = TrimRight zone ''.'' @ replicate k (CHR ''.''))
   \<and> (TrimRight zone ''.'' = [] \<or> last (TrimRight zone ''.'') \<noteq> CHR ''.'')
   \<and> fqdn name zone =
        (if HasSuffix (TrimRight name ''.'') (TrimRight zone ''.'')
         then TrimRight name ''.'' @ ''.''
         else TrimRight name ''.'' @ ''.'' @ TrimRight zone ''.'' @ ''.'')
   \<and> (\<exists>b. fqdn name zone = b @ ''.'' \<and> (b = [] \<or> last b \<noteq> CHR ''.''))
   \<and> fqdn (fqdn name zone) zone = fqdn name zone"
proof -
  have "fqdn name zone =
        (if HasSuffix (TrimRight name ''.'') (TrimRight zone ''.'')
         then TrimRight name ''.'' @ ''.''
         else TrimRight name ''.'' @ ''.'' @ TrimRight zone ''.'' @ ''.'')"
    by (simp add: fqdn_def Let_def)
  then show ?thesis
    using TrimRight_split [of name] TrimRight_no_dot [of name]
      TrimRight_split [of zone] TrimRight_no_dot [of zone]
      fqdn_single_dot [of name zone] fqdn_idem [of name zone]
    by blast
qed

theorem C9_fqdn_witness:
  "fqdn ''www..'' ''example.com.'' = ''www.example.com.''
   \<and> fqdn (fqdn ''www..'' ''example.com.'') ''example.com.'' = ''www.example.com.''
   \<and> fqdn ''www.example.com'' ''example.com'' = ''www.example.com.''"
  using C9_fqdn_normalize_idempotent [of "''www..''" "''example.com.''"]
  by (simp add: fqdn_def TrimRight_def HasSuffix_def)

section \<open>Matching and the reconciler\<close>

lemma upsert_loop_find:
  "upsert_loop c zone rr u recs s =
     (case find (same_name_type zone rr) recs of
        Some cand \<Rightarrow> UpdateRecordById c (ID cand) u s
      | None \<Rightarrow> CreateRecord c u s)"
  by (induction recs) simp_all

lemma find_rrid_find:
  "find_rrid zone rr recs =
     (case find (same_name_type_data zone rr) recs of Some cand \<Rightarrow> ID cand | None \<Rightarrow> 0)"
  by (induction recs) simp_all

lemma find_first:
  "\<forall>p \<in> set pre. \<not> P p \<Longrightarrow> P cand \<Longrightarrow> find P (pre @ cand # post) = Some cand"
  by (induction pre) simp_all

text \<open>
  Claim C7. When several fetched records satisfy the match condition, both loops select
  the first of them in the order of the fetched list: if no record before \<open>cand\<close>
  matches and \<open>cand\<close> matches, the loop of \<open>upsertRecord\<close> updates \<open>cand\<close> (whatever
  follows it in the list), and the loop of \<open>DeleteRecords\<close> returns the id of \<open>cand\<close>. The
  result is a function of the list, and the update is issued rather than an error
  raised.
\<close>

theorem C7_first_match_wins:
  "((\<forall>p \<in> set pre. \<not> same_name_type zone rr p) \<and> same_name_type zone rr cand
     \<longrightarrow> upsert_loop c zone rr u (pre @ cand # post) s = UpdateRecordById c (ID cand) u s)
   \<and> ((\<forall>p \<in> set pre. \<not> same_name_type_data zone rr p) \<and> same_name_type_data zone rr cand
     \<longrightarrow> find_rrid zone rr (pre @ cand # post) = ID cand)"
  by (simp add: upsert_loop_find find_rrid_find find_first)

theorem C7_first_match_witness:
  "upsert_loop mem_client ''example.com''
     (toRR ipv4 (Address ''www'' 300000000000 [10, 0, 0, 9]))
     (rf 0 ''www.example.com.'' ''A'' ''10.0.0.9'')
     ([rf 5 ''mail.example.com.'' ''A'' ''10.0.0.9'']
      @ rf 7 ''www.example.com.'' ''A'' ''10.0.0.9'' # [rf 9 ''www.example.com'' ''A'' ''10.0.0.9''])
     (mem0 [] [])
   = UpdateRecordById mem_client 7 (rf 0 ''www.example.com.'' ''A'' ''10.0.0.9'') (mem0 [] [])
   \<and> find_rrid ''example.com'' (toRR ipv4 (Address ''www'' 300000000000 [10, 0, 0, 9]))
     ([rf 5 ''mail.example.com.'' ''A'' ''10.0.0.9'']
      @ rf 7 ''www.example.com.'' ''A'' ''10.0.0.9'' # [rf 9 ''www.example.com'' ''A'' ''10.0.0.9''])
     = 7"
  using C7_first_match_wins [of "[rf 5 ''mail.example.com.'' ''A'' ''10.0.0.9'']" "''example.com''"
      "toRR ipv4 (Address ''www'' 300000000000 [10, 0, 0, 9])"
      "rf 7 ''www.example.com.'' ''A'' ''10.0.0.9''" mem_client
      "rf 0 ''www.example.com.'' ''A'' ''10.0.0.9''"
      "[rf 9 ''www.example.com'' ''A'' ''10.0.0.9'']" "mem0 [] []"]
  by (simp add: run_defs)




lemma find_Some_set: "find P xs = Some x \<Longrightarrow> x \<in> set xs"
  by (induction xs) (auto split: if_splits)

lemma delete_loop_result:
  "delete_loop c ni zone all_records records deleted s = (Inr out, s1) \<Longrightarrow> out = deleted @ records"
proof (induction records arbitrary: deleted s)
  case Nil
  then show ?case by simp
next
  case (Cons r rs)
  from Cons.prems Cons.IH [of "deleted @ [r]"] show ?case
    by (auto simp: Let_def split: if_splits prod.splits option.splits)
qed

text \<open>
  Claim C5. In \<open>DeleteRecords\<close> each input record is matched against the fetched records
  by name, type and data. With fetched records that all carry a non-zero id (the
  invariant of persisted records): when no fetched record matches, the operation fails
  with the not-found error and the state of the client is unchanged (no delete call is
  made for the record); when one matches, delete-by-id is called with the id of the
  first match, its failure is returned, and on success the loop goes on with the input
  record appended to the deleted records. A successful run returns the input records
  themselves.
\<close>

theorem C5_delete_strict_match:
  "(\<forall>r \<in> set all_records. ID r \<noteq> 0) \<longrightarrow>
     (find (same_name_type_data zone (toRR ni record)) all_records = None \<longrightarrow>
        delete_loop c ni zone all_records (record # records) deleted s =
          (Inl (Error (''record '' @ RR_Name (toRR ni record) @ '' of type ''
                       @ RR_Type (toRR ni record) @ '' with data '' @ RR_Data (toRR ni record)
                       @ '' not found'')), s))
     \<and> (\<forall>cand. find (same_name_type_data zone (toRR ni record)) all_records = Some cand \<longrightarrow>
        delete_loop c ni zone all_records (record # records) deleted s =
          (case DeleteRecord c (ID cand) s of
             (Some err, s1) \<Rightarrow>
               (Inl (Errorf_w (''failed to delete record ID '' @ show_int (ID cand) @ '': '') err), s1)
           | (None, s1) \<Rightarrow>
               delete_loop c ni zone all_records records (deleted @ [record]) s1))
     \<and> (\<forall>out s1. delete_loop c ni zone all_records records deleted s = (Inr out, s1)
           \<longrightarrow> out = deleted @ records)
     \<and> (\<forall>out s1. DeleteRecords c ni zone records s = (Inr out, s1) \<longrightarrow> out = records)"
proof (intro impI conjI allI)
  assume "find (same_name_type_data zone (toRR ni record)) all_records = None"
  then show "delete_loop c ni zone all_records (record # records) deleted s =
          (Inl (Error (''record '' @ RR_Name (toRR ni record) @ '' of type ''
                       @ RR_Type (toRR ni record) @ '' with data '' @ RR_Data (toRR ni record)
                       @ '' not found'')), s)"
    by (simp add: find_rrid_find Let_def)
next
  fix cand
  assume ids: "\<forall>r \<in> set all_records. ID r \<noteq> 0"
    and f: "find (same_name_type_data zone (toRR ni record)) all_records = Some cand"
  from f have "cand \<in> set all_records" by (rule find_Some_set)
  with ids have nz: "ID cand \<noteq> 0" by blast
  from f have "find_rrid zone (toRR ni record) all_records = ID cand"
    by (simp add: find_rrid_find)
  with nz show "delete_loop c ni zone all_records (record # records) deleted s =
          (case DeleteRecord c (ID cand) s of
             (Some err, s1) \<Rightarrow>
               (Inl (Errorf_w (''failed to delete record ID '' @ show_int (ID cand) @ '': '') err), s1)
           | (None, s1) \<Rightarrow>
               delete_loop c ni zone all_records records (deleted @ [record]) s1)"
    by (simp add: Let_def split: prod.splits option.splits)
next
  fix out s1
  assume "delete_loop c ni zone all_records records deleted s = (Inr out, s1)"
  then show "out = deleted @ records" by (rule delete_loop_result)
next
  fix out s1
  assume "DeleteRecords c ni zone records s = (Inr out, s1)"
  then show "out = records"
    by (auto simp: DeleteRecords_def split: prod.splits sum.splits dest: delete_loop_result)
qed


theorem C5_delete_witness:
  "DeleteRecords mem_client ipv4 ''example.com'' [TXT ''www'' 300000000000 ''hello'']
     (mem0 [rf 7 ''www.example.com.'' ''TXT'' ''hello''] [])
   = (Inr [TXT ''www'' 300000000000 ''hello''],
      \<lparr>stored = [], next_id = 100, locked = [],
        calls = [Call_Get ''example.com'', Call_Delete 7]\<rparr>)
   \<and> DeleteRecords mem_client ipv4 ''example.com'' [TXT ''www'' 300000000000 ''other'']
     (mem0 [rf 7 ''www.example.com.'' ''TXT'' ''hello''] [])
   = (Inl (Error ''record www of type TXT with data other not found''),
      \<lparr>stored = [rf 7 ''www.example.com.'' ''TXT'' ''hello''], next_id = 100, locked = [],
        calls = [Call_Get ''example.com'']\<rparr>)"
  using C5_delete_strict_match [of "[rf 7 ''www.example.com.'' ''TXT'' ''hello'']"
      "''example.com''" ipv4 "TXT ''www'' 300000000000 ''hello''" mem_client "[]" "[]"
      "snd (mem_get ''example.com'' (mem0 [rf 7 ''www.example.com.'' ''TXT'' ''hello''] []))"]
    C5_delete_strict_match [of "[rf 7 ''www.example.com.'' ''TXT'' ''hello'']"
      "''example.com''" ipv4 "TXT ''www'' 300000000000 ''other''" mem_client "[]" "[]"
      "snd (mem_get ''example.com'' (mem0 [rf 7 ''www.example.com.'' ''TXT'' ''hello''] []))"]
  by (simp add: run_defs)

lemma append_loop_app:
  "append_loop c ni zone (xs @ ys) acc s =
     (case append_loop c ni zone xs acc s of
        (Inl e, s1) \<Rightarrow> (Inl e, s1)
      | (Inr acc1, s1) \<Rightarrow> append_loop c ni zone ys acc1 s1)"
  by (induction xs arbitrary: acc s) (simp_all split: prod.splits sum.splits)

lemma set_loop_app:
  "set_loop c ni zone (xs @ ys) acc s =
     (case set_loop c ni zone xs acc s of
        (Inl e, s1) \<Rightarrow> (Inl e, s1)
      | (Inr acc1, s1) \<Rightarrow> set_loop c ni zone ys acc1 s1)"
  by (induction xs arbitrary: acc s) (simp_all split: prod.splits sum.splits)

lemma delete_loop_app:
  "delete_loop c ni zone all_records (xs @ ys) acc s =
     (case delete_loop c ni zone all_records xs acc s of
        (Inl e, s1) \<Rightarrow> (Inl e, s1)
      | (Inr acc1, s1) \<Rightarrow> delete_loop c ni zone all_records ys acc1 s1)"
  by (induction xs arbitrary: acc s) (simp_all add: Let_def split: prod.splits option.splits)

text \<open>
  Claim C6, as amended. The three batch operations process their input in order and stop
  at the first record whose provider call fails: when the records before the k-th are
  processed with success, leaving the client in state \<open>s1\<close>, and the call for the
  k-th record \<open>r\<close> fails, leaving state \<open>s2\<close>, the operation on the whole list returns
  only that error and state \<open>s2\<close>, whatever records follow (they are not attempted and
  nothing is rolled back). The error of \<open>AppendRecords\<close>, of \<open>SetRecords\<close> and the
  not-found error of \<open>DeleteRecords\<close> carry the name of the record; the error of a failed
  delete call carries the id of the matched provider record, not the name.
\<close>

theorem C6_batch_fail_fast:
  "(AppendRecords c ni zone pre s = (Inr out, s1)
      \<and> CreateRecord c (convertFromLibdnsRecord ni r zone) s1 = (Inl e, s2)
     \<longrightarrow> AppendRecords c ni zone (pre @ r # post) s =
           (Inl (Errorf_w (''failed to create record '' @ RR_Name (toRR ni r) @ '': '') e), s2))
   \<and> (SetRecords c ni zone pre s = (Inr out, s1)
      \<and> upsertRecord c ni r zone s1 = (Inl e, s2)
     \<longrightarrow> SetRecords c ni zone (pre @ r # post) s =
           (Inl (Errorf_w (''failed to update record '' @ RR_Name (toRR ni r) @ '': '') e), s2))
   \<and> (GetRecordsByDomain c zone s = (Inr all_records, s0)
      \<and> DeleteRecords c ni zone pre s = (Inr out, s1)
      \<and> find_rrid zone (toRR ni r) all_records = 0
     \<longrightarrow> DeleteRecords c ni zone (pre @ r # post) s =
           (Inl (Error (''record '' @ RR_Name (toRR ni r) @ '' of type '' @ RR_Type (toRR ni r)
                        @ '' with data '' @ RR_Data (toRR ni r) @ '' not found'')), s1))
   \<and> (GetRecordsByDomain c zone s = (Inr all_records, s0)
      \<and> DeleteRecords c ni zone pre s = (Inr out, s1)
      \<and> find_rrid zone (toRR ni r) all_records \<noteq> 0
      \<and> DeleteRecord c (find_rrid zone (toRR ni r) all_records) s1 = (Some e, s2)
     \<longrightarrow> DeleteRecords c ni zone (pre @ r # post) s =
           (Inl (Errorf_w (''failed to delete record ID ''
                           @ show_int (find_rrid zone (toRR ni r) all_records) @ '': '') e), s2))"
proof (intro conjI impI)
  assume "AppendRecords c ni zone pre s = (Inr out, s1)
      \<and> CreateRecord c (convertFromLibdnsRecord ni r zone) s1 = (Inl e, s2)"
  then show "AppendRecords c ni zone (pre @ r # post) s =
           (Inl (Errorf_w (''failed to create record '' @ RR_Name (toRR ni r) @ '': '') e), s2)"
    by (simp add: AppendRecords_def append_loop_app)
next
  assume "SetRecords c ni zone pre s = (Inr out, s1)
      \<and> upsertRecord c ni r zone s1 = (Inl e, s2)"
  then show "SetRecords c ni zone (pre @ r # post) s =
           (Inl (Errorf_w (''failed to update record '' @ RR_Name (toRR ni r) @ '': '') e), s2)"
    by (simp add: SetRecords_def set_loop_app)
next
  assume "GetRecordsByDomain c zone s = (Inr all_records, s0)
      \<and> DeleteRecords c ni zone pre s = (Inr out, s1)
      \<and> find_rrid zone (toRR ni r) all_records = 0"
  then show "DeleteRecords c ni zone (pre @ r # post) s =
           (Inl (Error (''record '' @ RR_Name (toRR ni r) @ '' of type '' @ RR_Type (toRR ni r)
                        @ '' with data '' @ RR_Data (toRR ni r) @ '' not found'')), s1)"
    by (auto simp: DeleteRecords_def delete_loop_app Let_def)
next
  assume "GetRecordsByDomain c zone s = (Inr all_records, s0)
      \<and> DeleteRecords c ni zone pre s = (Inr out, s1)
      \<and> find_rrid zone (toRR ni r) all_records \<noteq> 0
      \<and> DeleteRecord c (find_rrid zone (toRR ni r) all_records) s1 = (Some e, s2)"
  then show "DeleteRecords c ni zone (pre @ r # post) s =
           (Inl (Errorf_w (''failed to delete record ID ''
                           @ show_int (find_rrid zone (toRR ni r) all_records) @ '': '') e), s2)"
    by (auto simp: DeleteRecords_def delete_loop_app Let_def)
qed


theorem C6_batch_fail_fast_witness:
  "AppendRecords mem_client ipv4 ''example.com''
     ([Address ''www'' 300000000000 [10, 0, 0, 1]] @ Address ''bad'' 30000000000 [10, 0, 0, 2]
        # [Address ''third'' 300000000000 [10, 0, 0, 3]]) (mem0 [] [])
   = (Inl (Wrapped ''failed to create record bad: ttl too low'' (Error ''ttl too low'')),
      \<lparr>stored = [rf 100 ''www.example.com.'' ''A'' ''10.0.0.1''], next_id = 101, locked = [],
        calls = [Call_Create (rf 0 ''www.example.com.'' ''A'' ''10.0.0.1''),
                 Call_Create ((rf 0 ''bad.example.com.'' ''A'' ''10.0.0.2'')\<lparr>TTL := 30\<rparr>)]\<rparr>)
   \<and> DeleteRecords mem_client ipv4 ''example.com''
     ([TXT ''www'' 300000000000 ''hello''] @ TXT ''lock'' 300000000000 ''x''
        # [TXT ''third'' 300000000000 ''y''])
     (mem0 [rf 7 ''www.example.com.'' ''TXT'' ''hello'', rf 8 ''lock.example.com.'' ''TXT'' ''x'',
            rf 9 ''third.example.com.'' ''TXT'' ''y''] [8])
   = (Inl (Wrapped ''failed to delete record ID 8: record is locked'' (Error ''record is locked'')),
      \<lparr>stored = [rf 8 ''lock.example.com.'' ''TXT'' ''x'', rf 9 ''third.example.com.'' ''TXT'' ''y''],
        next_id = 100, locked = [8],
        calls = [Call_Get ''example.com'', Call_Delete 7, Call_Delete 8]\<rparr>)"
  using C6_batch_fail_fast [where c = mem_client and ni = ipv4 and zone = "''example.com''"
      and pre = "[Address ''www'' 300000000000 [10, 0, 0, 1]]" and s = "mem0 [] []"
      and out = "[Address ''www'' 300000000000 [10, 0, 0, 1]]"
      and ?s1.0 = "\<lparr>stored = [rf 100 ''www.example.com.'' ''A'' ''10.0.0.1''], next_id = 101,
                     locked = [],
                     calls = [Call_Create (rf 0 ''www.example.com.'' ''A'' ''10.0.0.1'')]\<rparr>"
      and r = "Address ''bad'' 30000000000 [10, 0, 0, 2]" and e = "Error ''ttl too low''"
      and ?s2.0 = "\<lparr>stored = [rf 100 ''www.example.com.'' ''A'' ''10.0.0.1''], next_id = 101,
                     locked = [],
                     calls = [Call_Create (rf 0 ''www.example.com.'' ''A'' ''10.0.0.1''),
                              Call_Create ((rf 0 ''bad.example.com.'' ''A'' ''10.0.0.2'')\<lparr>TTL := 30\<rparr>)]\<rparr>"
      and post = "[Address ''third'' 300000000000 [10, 0, 0, 3]]"]
    C6_batch_fail_fast [where c = mem_client and ni = ipv4 and zone = "''example.com''"
      and pre = "[TXT ''www'' 300000000000 ''hello'']"
      and s = "mem0 [rf 7 ''www.example.com.'' ''TXT'' ''hello'', rf 8 ''lock.example.com.'' ''TXT'' ''x'',
            rf 9 ''third.example.com.'' ''TXT'' ''y''] [8]"
      and all_records = "[rf 7 ''www.example.com.'' ''TXT'' ''hello'', rf 8 ''lock.example.com.'' ''TXT'' ''x'',
            rf 9 ''third.example.com.'' ''TXT'' ''y'']"
      and ?s0.0 = "\<lparr>stored = [rf 7 ''www.example.com.'' ''TXT'' ''hello'', rf 8 ''lock.example.com.'' ''TXT'' ''x'',
            rf 9 ''third.example.com.'' ''TXT'' ''y''], next_id = 100, locked = [8],
            calls = [Call_Get ''example.com'']\<rparr>"
      and out = "[TXT ''www'' 300000000000 ''hello'']"
      and ?s1.0 = "\<lparr>stored = [rf 8 ''lock.example.com.'' ''TXT'' ''x'',
            rf 9 ''third.example.com.'' ''TXT'' ''y''], next_id = 100, locked = [8],
            calls = [Call_Get ''example.com'', Call_Delete 7]\<rparr>"
      and r = "TXT ''lock'' 300000000000 ''x''" and e = "Error ''record is locked''"
      and ?s2.0 = "\<lparr>stored = [rf 8 ''lock.example.com.'' ''TXT'' ''x'',
            rf 9 ''third.example.com.'' ''TXT'' ''y''], next_id = 100, locked = [8],
            calls = [Call_Get ''example.com'', Call_Delete 7, Call_Delete 8]\<rparr>"
      and post = "[TXT ''third'' 300000000000 ''y'']"]
  by (simp add: run_defs)

text \<open>
  Claim C6 as stated fails: when the delete call of the provider fails, the error
  returned by \<open>DeleteRecords\<close> is wrapped with the id of the provider record; the name of
  the input record does not occur in it.
\<close>

theorem C6_delete_error_names_id_counterexample:
  "DeleteRecords mem_client ipv4 ''example.com'' [TXT ''www'' 300000000000 ''hello'']
     (mem0 [rf 7 ''www.example.com.'' ''TXT'' ''hello''] [7])
   = (Inl (Wrapped ''failed to delete record ID 7: record is locked'' (Error ''record is locked'')),
      \<lparr>stored = [rf 7 ''www.example.com.'' ''TXT'' ''hello''], next_id = 100, locked = [7],
        calls = [Call_Get ''example.com'', Call_Delete 7]\<rparr>)
   \<and> RR_Name (toRR ipv4 (TXT ''www'' 300000000000 ''hello'')) = ''www''
   \<and> \<not> sublist ''www'' ''failed to delete record ID 7: record is locked''"
  by (simp add: run_defs sublist_code)





section \<open>The precondition of decoding\<close>

lemma convertToLibdnsRecord_name:
  "Name rec \<noteq> [] \<Longrightarrow>
   \<exists>r. convertToLibdnsRecord ni rec zone = Inr r
       \<and> Record_Name r = Some (RelativeName (butlast (Name rec)) zone)"
  by (simp add: convertToLibdnsRecord_def Let_def split: option.splits)

lemma get_loop_panic:
  "(get_loop ni zone recs acc = Inl Panic_slice_bounds) = (\<exists>rec \<in> set recs. Name rec = [])"
proof (induction recs arbitrary: acc)
  case Nil
  then show ?case by simp
next
  case (Cons r rs)
  show ?case
  proof (cases "Name r = []")
    case True
    then show ?thesis by (simp add: convertToLibdnsRecord_def)
  next
    case False
    with convertToLibdnsRecord_name [of r ni zone] obtain x
      where "convertToLibdnsRecord ni r zone = Inr x" by blast
    with False Cons.IH show ?thesis by simp
  qed
qed

lemma get_loop_ok:
  "\<forall>rec \<in> set recs. Name rec \<noteq> [] \<Longrightarrow>
   \<exists>out. get_loop ni zone recs acc = Inr (acc @ out) \<and> length out = length recs"
proof (induction recs arbitrary: acc)
  case Nil
  then show ?case by simp
next
  case (Cons r rs)
  then have "Name r \<noteq> []" by simp
  with convertToLibdnsRecord_name [of r ni zone] obtain x
    where x: "convertToLibdnsRecord ni r zone = Inr x" by blast
  from Cons have "\<forall>rec \<in> set rs. Name rec \<noteq> []" by simp
  from Cons.IH [OF this, of "acc @ [x]"] obtain out
    where "get_loop ni zone rs (acc @ [x]) = Inr ((acc @ [x]) @ out)" "length out = length rs"
    by blast
  with x show ?case
    by (intro exI [of _ "x # out"]) simp
qed

text \<open>
  Claim C10. \<open>convertToLibdnsRecord\<close> removes the last byte of the name before it makes
  the name relative: it panics exactly when the name is empty, and for every other
  record it returns a record whose field \<open>Name\<close> is \<open>RelativeName\<close> of the name without
  its last byte. A name that ends with a dot (the invariant of provider records) is not empty,
  so the panic is unreachable under the invariant. \<open>GetRecords\<close> decodes every fetched
  record: after a successful fetch it panics exactly when some fetched record has an
  empty name, and otherwise returns one record for each fetched record.
\<close>

theorem C10_decode_needs_nonempty_name:
  "(convertToLibdnsRecord ni rec zone = Inl Panic_slice_bounds \<longleftrightarrow> Name rec = [])
   \<and> (Name rec \<noteq> [] \<longrightarrow>
        (\<exists>r. convertToLibdnsRecord ni rec zone = Inr r
             \<and> Record_Name r = Some (RelativeName (butlast (Name rec)) zone)))
   \<and> (HasSuffix (Name rec) ''.'' \<longrightarrow> convertToLibdnsRecord ni rec zone \<noteq> Inl Panic_slice_bounds)
   \<and> (GetRecordsByDomain c zone s = (Inr records, s1) \<longrightarrow>
        (GetRecords c ni zone s = (Inl Panic_slice_bounds, s1)
           \<longleftrightarrow> (\<exists>r \<in> set records. Name r = []))
        \<and> ((\<forall>r \<in> set records. Name r \<noteq> []) \<longrightarrow>
             (\<exists>out. GetRecords c ni zone s = (Inr out, s1) \<and> length out = length records)))"
proof (intro conjI impI)
  show p: "convertToLibdnsRecord ni rec zone = Inl Panic_slice_bounds \<longleftrightarrow> Name rec = []"
    using convertToLibdnsRecord_name [of rec ni zone]
    by (cases "Name rec = []") (auto simp: convertToLibdnsRecord_def)
  show "\<exists>r. convertToLibdnsRecord ni rec zone = Inr r
             \<and> Record_Name r = Some (RelativeName (butlast (Name rec)) zone)"
    if "Name rec \<noteq> []"
    using that by (rule convertToLibdnsRecord_name)
  show "convertToLibdnsRecord ni rec zone \<noteq> Inl Panic_slice_bounds" if "HasSuffix (Name rec) ''.''"
  proof -
    from that have "Name rec \<noteq> []" by (auto simp: HasSuffix_def)
    with p show ?thesis by simp
  qed
next
  assume g: "GetRecordsByDomain c zone s = (Inr records, s1)"
  then show "GetRecords c ni zone s = (Inl Panic_slice_bounds, s1)
           \<longleftrightarrow> (\<exists>r \<in> set records. Name r = [])"
    by (simp add: GetRecords_def get_loop_panic)
  show "\<exists>out. GetRecords c ni zone s = (Inr out, s1) \<and> length out = length records"
    if "\<forall>r \<in> set records. Name r \<noteq> []"
    using get_loop_ok [OF that, of ni zone "[]"] g by (simp add: GetRecords_def)
qed

theorem C10_decode_witness:
  "convertToLibdnsRecord ipv4 (rf 3 '''' ''TXT'' ''v'') ''example.com'' = Inl Panic_slice_bounds
   \<and> convertToLibdnsRecord ipv4 (rf 3 ''www.example.com.'' ''TXT'' ''v'') ''example.com''
       = Inr (TXT ''www'' 300000000000 ''v'')
   \<and> GetRecords mem_client ipv4 ''example.com''
        (mem0 [rf 3 ''www.example.com.'' ''TXT'' ''v'', rf 4 '''' ''TXT'' ''w''] [])
       = (Inl Panic_slice_bounds,
          \<lparr>stored = [rf 3 ''www.example.com.'' ''TXT'' ''v'', rf 4 '''' ''TXT'' ''w''],
            next_id = 100, locked = [], calls = [Call_Get ''example.com'']\<rparr>)"
  using C10_decode_needs_nonempty_name [of ipv4 "rf 3 '''' ''TXT'' ''v''" "''example.com''"
      mem_client "mem0 [rf 3 ''www.example.com.'' ''TXT'' ''v'', rf 4 '''' ''TXT'' ''w''] []"
      "[rf 3 ''www.example.com.'' ''TXT'' ''v'', rf 4 '''' ''TXT'' ''w'']"
      "\<lparr>stored = [rf 3 ''www.example.com.'' ''TXT'' ''v'', rf 4 '''' ''TXT'' ''w''],
            next_id = 100, locked = [], calls = [Call_Get ''example.com'']\<rparr>"]
    C10_decode_needs_nonempty_name [of ipv4 "rf 3 ''www.example.com.'' ''TXT'' ''v''" "''example.com''"
      mem_client "mem0 [rf 3 ''www.example.com.'' ''TXT'' ''v''] []"
      "[rf 3 ''www.example.com.'' ''TXT'' ''v'']"
      "\<lparr>stored = [rf 3 ''www.example.com.'' ''TXT'' ''v''],
            next_id = 100, locked = [], calls = [Call_Get ''example.com'']\<rparr>"]
  by (simp add: run_defs)

section \<open>The priority of the encoded record\<close>

text \<open>
  Claim C4 holds for \<open>convertFromLibdnsRecord\<close> on the variants of the claim and fails
  for the record that \<open>upsertRecord\<close> builds: for an SRV record with priority 10,
  \<open>convertFromLibdnsRecord\<close> sets the priority to 10 and \<open>upsertRecord\<close> leaves it unset
  (for an MX record it sets the preference). So \<open>SetRecords\<close> stores the SRV record
  without a priority, where \<open>AppendRecords\<close> stores it with priority 10.
\<close>

theorem C4_upsert_leaves_SRV_priority_unset:
  "Priority (upsert_update_rec ipv4
      (SRV ''sip'' ''tcp'' ''@'' 300000000000 10 20 5060 ''sip.example.com'') ''example.com'')
     = None
   \<and> Priority (convertFromLibdnsRecord ipv4
      (SRV ''sip'' ''tcp'' ''@'' 300000000000 10 20 5060 ''sip.example.com'') ''example.com'')
     = Some 10
   \<and> Priority (upsert_update_rec ipv4 (MX ''@'' 300000000000 10 ''mail.example.com'')
        ''example.com'') = Some 10
   \<and> map Priority (stored (snd (SetRecords mem_client ipv4 ''example.com''
        [SRV ''sip'' ''tcp'' ''@'' 300000000000 10 20 5060 ''sip.example.com''] (mem0 [] []))))
     = [None]
   \<and> map Priority (stored (snd (AppendRecords mem_client ipv4 ''example.com''
        [SRV ''sip'' ''tcp'' ''@'' 300000000000 10 20 5060 ''sip.example.com''] (mem0 [] []))))
     = [Some 10]"
  by (simp add: run_defs)

section \<open>The record converter\<close>

lemma ParseUint_loop_app:
  "ParseUint_loop m a (xs @ ys) =
     (case ParseUint_loop m a xs of None \<Rightarrow> None | Some b \<Rightarrow> ParseUint_loop m b ys)"
  by (induction xs arbitrary: a) simp_all

lemma digit_char_cases:
  assumes "d < 10"
  shows "d = 0 \<or> d = 1 \<or> d = 2 \<or> d = 3 \<or> d = 4 \<or> d = 5 \<or> d = 6 \<or> d = 7 \<or> d = 8 \<or> d = (9::nat)"
  using assms by arith

lemma of_char_digit_char: "d < 10 \<Longrightarrow> of_char (digit_char d) = (48::nat) + d"
  using digit_char_cases [of d] by (auto simp: digit_char_def)

lemma digit_char_in: "d < 10 \<Longrightarrow> digit_char d \<in> set ''0123456789''"
  using digit_char_cases [of d] by (auto simp: digit_char_def)

lemma show_nat_digits: "set (show_nat n) \<subseteq> set ''0123456789''"
proof (induction n rule: show_nat.induct)
  case (1 n)
  show ?case
  proof (cases "n < 10")
    case True
    then show ?thesis
      using digit_char_in [of n] by (subst show_nat.simps) simp
  next
    case False
    have "n mod 10 < 10" by simp
    from digit_char_in [OF this] 1 [OF False] False show ?thesis
      by (subst show_nat.simps) simp
  qed
qed

lemma show_nat_nonempty: "show_nat n \<noteq> []"
  by (subst show_nat.simps) simp

lemma ParseUint_loop_show_nat:
  "n \<le> m \<Longrightarrow> m \<le> 18446744073709551615 \<Longrightarrow> ParseUint_loop m 0 (show_nat n) = Some n"
proof (induction n rule: show_nat.induct)
  case (1 n)
  show ?case
  proof (cases "n < 10")
    case True
    with 1(2) show ?thesis
      by (subst show_nat.simps) (simp add: of_char_digit_char)
  next
    case False
    have d: "n mod 10 < 10" by simp
    from 1(2) have "n div 10 \<le> m" by simp
    from 1(1) [OF False this 1(3)]
    have ih: "ParseUint_loop m 0 (show_nat (n div 10)) = Some (n div 10)" .
    from 1(2,3) have c: "\<not> 1844674407370955162 \<le> n div 10" by simp
    have e: "n div 10 * 10 + n mod 10 = n" by simp
    from False ih c 1(2) show ?thesis
      by (subst show_nat.simps)
        (simp add: ParseUint_loop_app of_char_digit_char [OF d] e)
  qed
qed

lemma ParseUint_show_nat16: "ParseUint (show_nat (unat (w :: 16 word))) 16 = Some (unat w)"
proof -
  have "unat w < 2 ^ 16" using unsigned_less [of w] by simp
  then have "unat w \<le> 65535" by simp
  then show ?thesis
    by (simp add: ParseUint_def show_nat_nonempty ParseUint_loop_show_nat)
qed

lemma space_len_digit:
  assumes "c \<in> set ''0123456789''"
  shows "space_len (c # cs) = 0"
proof -
  have a: "c \<notin> set ascii_space"
    using assms by (auto simp: ascii_space_def)
  have b: "c # xs \<notin> set unicode_space2" for xs
    using assms by (auto simp: unicode_space2_def)
  have d: "c # xs \<notin> set unicode_space3" for xs
    using assms by (auto simp: unicode_space3_def)
  show ?thesis by (simp add: a b d)
qed

lemma Fields_go_digits:
  "set xs \<subseteq> set ''0123456789'' \<Longrightarrow> Fields_go cur (xs @ rest) = Fields_go (cur @ xs) rest"
proof (induction xs arbitrary: cur)
  case Nil
  then show ?case by simp
next
  case (Cons x xs)
  then have "space_len (x # xs @ rest) = 0" by (intro space_len_digit) simp
  with Cons show ?case by simp
qed

lemma Fields_go_space:
  "Fields_go cur (CHR '' '' # t) = (if cur = [] then [] else [cur]) @ Fields_go [] t"
  by (simp add: ascii_space_def)

lemma Fields_number_then:
  "Fields_go [] (show_nat n @ CHR '' '' # t) = show_nat n # Fields_go [] t"
  using Fields_go_digits [OF show_nat_digits, of "[]" n "CHR '' '' # t"]
  by (simp add: Fields_go_space show_nat_nonempty del: Fields_go.simps)

lemma TrimSuffix_append: "TrimSuffix (a @ b) b = a"
  by (simp add: TrimSuffix_def HasSuffix_def)

lemma TrimSuffix_not: "\<not> HasSuffix s suf \<Longrightarrow> TrimSuffix s suf = s"
  by (simp add: TrimSuffix_def)

lemma HasSuffix_dot: "HasSuffix s ''.'' = (s \<noteq> [] \<and> last s = CHR ''.'')"
  by (cases s rule: rev_cases) (auto simp: HasSuffix_def)

lemma name_roundtrip:
  assumes "wf_name name zone"
  shows "fqdn name zone \<noteq> [] \<and> RelativeName (butlast (fqdn name zone)) zone = name"
proof -
  let ?z = "TrimRight zone ''.''"
  from assms have n: "name \<noteq> []" "last name \<noteq> CHR ''.''"
    and tz: "TrimSuffix zone ''.'' = ?z"
    and z: "?z = [] \<or> \<not> HasSuffix name ?z"
    by (auto simp: wf_name_def)
  from n have tn: "TrimRight name ''.'' = name" by (intro TrimRight_id) simp
  from n have nd: "\<not> HasSuffix name ''.''" by (simp add: HasSuffix_dot)
  show ?thesis
  proof (cases "?z = []")
    case True
    then have f: "fqdn name zone = name @ ''.''"
      by (simp add: fqdn_def tn HasSuffix_def)
    have "RelativeName name zone = name"
      unfolding RelativeName_def Let_def tz True TrimSuffix_not [OF nd]
      using n TrimSuffix_append [of name "[]"] by (simp add: TrimSuffix_not [OF nd])
    then show ?thesis unfolding f butlast_snoc by simp
  next
    case False
    with z have ns: "\<not> HasSuffix name ?z" by simp
    then have f: "fqdn name zone = (name @ ''.'' @ ?z) @ ''.''"
      by (simp add: fqdn_def tn)
    from False TrimRight_no_dot [of zone] have lz: "last ?z \<noteq> CHR ''.''" by simp
    with False have d: "\<not> HasSuffix (name @ ''.'' @ ?z) ''.''"
      by (simp add: HasSuffix_dot)
    have t: "TrimSuffix (name @ ''.'' @ ?z) ?z = name @ ''.''"
      using TrimSuffix_append [of "name @ ''.''" ?z] by simp
    have "RelativeName (name @ ''.'' @ ?z) zone = name"
      unfolding RelativeName_def Let_def tz TrimSuffix_not [OF d] t
      using n TrimSuffix_append [of name "''.''"] by simp
    then show ?thesis unfolding f butlast_snoc by simp
  qed
qed

lemma ttl_roundtrip:
  assumes "wf_ttl ttl"
  shows "seconds_to_Duration (Duration_Seconds_int ttl) = ttl"
proof -
  from assms have w: "ttl mod 1000000000 = 0" "- (2 ^ 63) \<le> ttl" "ttl < 2 ^ 63"
    by (simp_all add: wf_ttl_def)
  from w(1) have "ttl div 1000000000 * 1000000000 = ttl"
    by (simp add: mod_0_imp_dvd)
  moreover from w(2,3) have "wrap64 ttl = ttl"
    by (simp add: wrap64_def)
  ultimately show ?thesis
    by (simp add: seconds_to_Duration_def Duration_Seconds_int_whole [OF w])
qed

lemma ToUpper_types:
  "ToUpper ''A'' = ''A''" "ToUpper ''AAAA'' = ''AAAA''" "ToUpper ''MX'' = ''MX''"
  "ToUpper ''TXT'' = ''TXT''" "ToUpper ''CNAME'' = ''CNAME''" "ToUpper ''NS'' = ''NS''"
  "ToUpper ''SRV'' = ''SRV''" "ToUpper ''CAA'' = ''CAA''"
  by (simp_all add: upper_byte_def)

lemma decode_encode_name_ttl:
  assumes "wf_name name zone" "wf_ttl ttl"
  shows "fqdn name zone \<noteq> []"
    and "RelativeName (butlast (fqdn name zone)) zone = name"
    and "seconds_to_Duration (Duration_Seconds_int ttl) = ttl"
  using name_roundtrip [OF assms(1)] ttl_roundtrip [OF assms(2)] by simp_all

text \<open>
  Claim C1, as amended. For every well-formed record \<open>x\<close> of a variant in Address, MX,
  TXT, CNAME, NS and SRV, decoding the provider record that encodes \<open>x\<close> for a zone
  yields \<open>x\<close> again. Well-formed (\<open>wf_record\<close>): the name is a zone-relative name for the
  zone, the TTL is a whole number of seconds, the target of an MX or SRV record is one
  white-space-free field, the address of an Address record is one that its own printed
  form parses back to, and an SRV record has no service and no transport. The CAA
  variant is left out.
\<close>

theorem C1_decode_encode_roundtrip:
  "wf_record ni zone x \<Longrightarrow>
   convertToLibdnsRecord ni (convertFromLibdnsRecord ni x zone) zone = Inr x"
proof (cases x)
  case (Address name ttl ip)
  assume "wf_record ni zone x"
  with Address have w: "wf_name name zone" "wf_ttl ttl"
    and p: "ParseAddr ni (Addr_String ni ip) = Some ip" by simp_all
  show ?thesis
    unfolding Address
    by (simp add: convertFromLibdnsRecord_def convertToLibdnsRecord_def Let_def
        decode_encode_name_ttl [OF w] ToUpper_types upper_byte_def p)
next
  case (MX name ttl pref target)
  assume "wf_record ni zone x"
  with MX have w: "wf_name name zone" "wf_ttl ttl"
    and t: "Fields_go [] target = [target]" by (simp_all add: Fields_def)
  from t have ne: "target \<noteq> []" by auto
  have f: "Fields (show_nat (unat pref) @ CHR '' '' # target) = [show_nat (unat pref), target]"
    by (simp add: Fields_def Fields_number_then t del: Fields_go.simps)
  show ?thesis
    unfolding MX
    by (simp add: convertFromLibdnsRecord_def convertToLibdnsRecord_def Let_def
        decode_encode_name_ttl [OF w] ToUpper_types f ne ParseUint_show_nat16
        del: Fields_go.simps ToUpper.simps)
next
  case (TXT name ttl tx)
  assume "wf_record ni zone x"
  with TXT have w: "wf_name name zone" "wf_ttl ttl" by simp_all
  show ?thesis
    unfolding TXT
    by (simp add: convertFromLibdnsRecord_def convertToLibdnsRecord_def Let_def
        decode_encode_name_ttl [OF w] ToUpper_types del: ToUpper.simps)
next
  case (CNAME name ttl target)
  assume "wf_record ni zone x"
  with CNAME have w: "wf_name name zone" "wf_ttl ttl" by simp_all
  show ?thesis
    unfolding CNAME
    by (simp add: convertFromLibdnsRecord_def convertToLibdnsRecord_def Let_def
        decode_encode_name_ttl [OF w] ToUpper_types del: ToUpper.simps)
next
  case (NS name ttl target)
  assume "wf_record ni zone x"
  with NS have w: "wf_name name zone" "wf_ttl ttl" by simp_all
  show ?thesis
    unfolding NS
    by (simp add: convertFromLibdnsRecord_def convertToLibdnsRecord_def Let_def
        decode_encode_name_ttl [OF w] ToUpper_types del: ToUpper.simps)
next
  case (SRV service transport name ttl priority weight port target)
  assume "wf_record ni zone x"
  with SRV have s: "service = []" "transport = []"
    and w: "wf_name name zone" "wf_ttl ttl"
    and t: "Fields_go [] target = [target]" by (simp_all add: Fields_def)
  from t have ne: "target \<noteq> []" by auto
  have f: "Fields (show_nat (unat priority) @ CHR '' '' # show_nat (unat weight) @ CHR '' ''
                # show_nat (unat port) @ CHR '' '' # target)
           = [show_nat (unat priority), show_nat (unat weight), show_nat (unat port), target]"
    by (simp add: Fields_def Fields_number_then t del: Fields_go.simps)
  show ?thesis
    unfolding SRV s
    by (simp add: convertFromLibdnsRecord_def convertToLibdnsRecord_def Let_def
        decode_encode_name_ttl [OF w] ToUpper_types f ne ParseUint_show_nat16
        del: Fields_go.simps ToUpper.simps)
next
  case (CAA name ttl flags tag val)
  assume "wf_record ni zone x"
  with CAA show ?thesis by simp
next
  case (Raw rr)
  assume "wf_record ni zone x"
  with Raw show ?thesis by simp
next
  case (ServiceBinding rr priority)
  assume "wf_record ni zone x"
  with ServiceBinding show ?thesis by simp
qed


text \<open>
  A decoded SRV record never has a service or a transport, whatever the provider record
  is: the round trip is that of the SRV records without them.
\<close>

lemma decode_SRV_without_service:
  "convertToLibdnsRecord ni rec zone = Inr (SRV service transport name ttl priority weight port target)
   \<Longrightarrow> service = [] \<and> transport = []"
  by (simp add: convertToLibdnsRecord_def Let_def split: if_splits option.splits)

theorem C1_decode_encode_witness:
  "wf_record ipv4 ''example.com'' (MX ''host'' 300000000000 10 ''mail.example.com'')
   \<and> convertToLibdnsRecord ipv4
        (convertFromLibdnsRecord ipv4 (MX ''host'' 300000000000 10 ''mail.example.com'')
           ''example.com'') ''example.com''
       = Inr (MX ''host'' 300000000000 10 ''mail.example.com'')
   \<and> wf_record ipv4 ''example.com.'' (Address ''www'' 60000000000 [10, 0, 0, 1])
   \<and> convertToLibdnsRecord ipv4
        (convertFromLibdnsRecord ipv4 (Address ''www'' 60000000000 [10, 0, 0, 1])
           ''example.com.'') ''example.com.''
       = Inr (Address ''www'' 60000000000 [10, 0, 0, 1])
   \<and> convertFromLibdnsRecord ipv4 (MX ''host'' 300000000000 10 ''mail.example.com'')
         ''example.com''
       = (rf 0 ''host.example.com.'' ''MX'' ''10 mail.example.com'')\<lparr>Priority := Some 10\<rparr>
   \<and> wf_record ipv4 ''example.com''
        (SRV [] [] ''_sip._tcp'' 300000000000 10 20 5060 ''sip.example.com'')
   \<and> convertToLibdnsRecord ipv4
        (convertFromLibdnsRecord ipv4
           (SRV [] [] ''_sip._tcp'' 300000000000 10 20 5060 ''sip.example.com'')
           ''example.com'') ''example.com''
       = Inr (SRV [] [] ''_sip._tcp'' 300000000000 10 20 5060 ''sip.example.com'')
   \<and> convertFromLibdnsRecord ipv4
         (SRV [] [] ''_sip._tcp'' 300000000000 10 20 5060 ''sip.example.com'') ''example.com''
       = (rf 0 ''_sip._tcp.example.com.'' ''SRV'' ''10 20 5060 sip.example.com'')
           \<lparr>Priority := Some 10\<rparr>"
  using C1_decode_encode_roundtrip [of ipv4 "''example.com''"
      "MX ''host'' 300000000000 10 ''mail.example.com''"]
    C1_decode_encode_roundtrip [of ipv4 "''example.com.''"
      "Address ''www'' 60000000000 [10, 0, 0, 1]"]
    C1_decode_encode_roundtrip [of ipv4 "''example.com''"
      "SRV [] [] ''_sip._tcp'' 300000000000 10 20 5060 ''sip.example.com''"]
  by (simp add: run_defs wf_name_def wf_ttl_def)

text \<open>
  Claim C1 as stated fails for the CAA variant: the data of the encoded record holds
  the value in double quotes (the verb \<^verbatim>\<open>%q\<close> of \<^verbatim>\<open>libdns.CAA.RR\<close>), and decoding keeps the
  quotes in the value.
\<close>

theorem C1_CAA_roundtrip_counterexample:
  "Data (convertFromLibdnsRecord ipv4 (CAA ''www'' 300000000000 0 ''issue'' ''letsencrypt.org'')
          ''example.com'')
     = ''0 issue '' @ [CHR 0x22] @ ''letsencrypt.org'' @ [CHR 0x22]
   \<and> convertToLibdnsRecord ipv4
        (convertFromLibdnsRecord ipv4 (CAA ''www'' 300000000000 0 ''issue'' ''letsencrypt.org'')
           ''example.com'') ''example.com''
       = Inr (CAA ''www'' 300000000000 0 ''issue'' ([CHR 0x22] @ ''letsencrypt.org'' @ [CHR 0x22]))
   \<and> convertToLibdnsRecord ipv4
        (convertFromLibdnsRecord ipv4 (CAA ''www'' 300000000000 0 ''issue'' ''letsencrypt.org'')
           ''example.com'') ''example.com''
       \<noteq> Inr (CAA ''www'' 300000000000 0 ''issue'' ''letsencrypt.org'')"
  by (simp add: run_defs)

lemma ParseUint_loop_non_digit:
  "\<exists>c \<in> set s. \<not> ((48::nat) \<le> of_char c \<and> of_char c \<le> (57::nat))
   \<Longrightarrow> ParseUint_loop m a s = None"
  by (induction s arbitrary: a) auto

lemma ParseUint_non_numeric:
  "s = [] \<or> (\<exists>c \<in> set s. \<not> ((48::nat) \<le> of_char c \<and> of_char c \<le> (57::nat)))
   \<Longrightarrow> ParseUint s bits = None"
  using ParseUint_loop_non_digit [of s "2 ^ bits - 1" 0]
  by (cases "s = []") (simp_all add: ParseUint_def)

lemma IndexByte_None: "(IndexByte s sep = None) = (sep \<notin> set s)"
  by (induction s) auto

lemma IndexByte_Some_count:
  "IndexByte s sep = Some m \<Longrightarrow> count_list s sep = Suc (count_list (drop (Suc m) s) sep)"
  by (induction s arbitrary: m) (auto split: if_splits)

lemma length_genSplit_loop:
  "length (genSplit_loop s sep n) = Suc (min n (count_list s sep))"
proof (induction n arbitrary: s)
  case 0
  then show ?case by simp
next
  case (Suc n)
  show ?case
  proof (cases "IndexByte s sep")
    case None
    then have "count_list s sep = 0" by (simp add: IndexByte_None)
    with None show ?thesis by simp
  next
    case (Some m)
    from IndexByte_Some_count [OF Some] Some Suc show ?thesis by simp
  qed
qed

lemma count_list_le_length: "count_list s x \<le> length s"
  by (induction s) auto

lemma length_SplitN_3: "(length (SplitN s sep 3) \<noteq> 3) = (count_list s sep < 2)"
  using count_list_le_length [of s sep]
  by (auto simp: SplitN_def length_genSplit_loop min_def)


lemma decode_fallback:
  assumes n: "Name rec \<noteq> []"
  shows "(ToUpper (Type rec) = ''A'' \<or> ToUpper (Type rec) = ''AAAA'')
           \<and> ParseAddr ni (Data rec) = None \<Longrightarrow>
         convertToLibdnsRecord ni rec zone =
           Inr (Raw \<lparr>RR_Name = RelativeName (butlast (Name rec)) zone,
                     RR_TTL = seconds_to_Duration (TTL rec), RR_Type = Type rec,
                     RR_Data = Data rec\<rparr>)"
    and "ToUpper (Type rec) = ''MX''
           \<and> (length (Fields (Data rec)) \<noteq> 2 \<or> ParseUint (Fields (Data rec) ! 0) 16 = None) \<Longrightarrow>
         convertToLibdnsRecord ni rec zone =
           Inr (Raw \<lparr>RR_Name = RelativeName (butlast (Name rec)) zone,
                     RR_TTL = seconds_to_Duration (TTL rec), RR_Type = Type rec,
                     RR_Data = Data rec\<rparr>)"
    and "ToUpper (Type rec) = ''SRV''
           \<and> (length (Fields (Data rec)) \<noteq> 4 \<or> ParseUint (Fields (Data rec) ! 0) 16 = None
                \<or> ParseUint (Fields (Data rec) ! 1) 16 = None
                \<or> ParseUint (Fields (Data rec) ! 2) 16 = None) \<Longrightarrow>
         convertToLibdnsRecord ni rec zone =
           Inr (Raw \<lparr>RR_Name = RelativeName (butlast (Name rec)) zone,
                     RR_TTL = seconds_to_Duration (TTL rec), RR_Type = Type rec,
                     RR_Data = Data rec\<rparr>)"
    and "ToUpper (Type rec) = ''CAA''
           \<and> (length (SplitN (Data rec) CHR '' '' 3) \<noteq> 3
                \<or> ParseUint (SplitN (Data rec) CHR '' '' 3 ! 0) 8 = None) \<Longrightarrow>
         convertToLibdnsRecord ni rec zone =
           Inr (Raw \<lparr>RR_Name = RelativeName (butlast (Name rec)) zone,
                     RR_TTL = seconds_to_Duration (TTL rec), RR_Type = Type rec,
                     RR_Data = Data rec\<rparr>)"
    and "ToUpper (Type rec) \<notin> set [''A'', ''AAAA'', ''MX'', ''TXT'', ''CNAME'', ''NS'', ''SRV'', ''CAA''] \<Longrightarrow>
         convertToLibdnsRecord ni rec zone =
           Inr (Raw \<lparr>RR_Name = RelativeName (butlast (Name rec)) zone,
                     RR_TTL = seconds_to_Duration (TTL rec), RR_Type = Type rec,
                     RR_Data = Data rec\<rparr>)"
  using n by (auto simp: convertToLibdnsRecord_def Let_def split: option.splits)

text \<open>
  Claim C2, as amended. For every provider record with a non-empty name, decoding
  returns a record (no error), and it returns the \<open>Raw\<close> record with the type and the
  data string of the provider record unchanged when the data is malformed for the type:
  for A and AAAA, data that the address parser rejects; for MX, a number of
  white-space-separated fields other than 2, or a first field that \<open>ParseUint\<close> rejects
  for 16 bits; for SRV, a number of fields other than 4, or one of the first three
  fields rejected; for CAA, fewer than 3 parts when the data is cut at its first two
  space bytes (that is, fewer than two space bytes in the data), or a first part that
  \<open>ParseUint\<close> rejects for 8 bits; and for every type outside the table. \<open>ParseUint\<close>
  rejects the empty string and every string with a byte that is not a decimal digit.
\<close>

theorem C2_malformed_data_decodes_to_Raw:
  "Name rec \<noteq> [] \<longrightarrow>
     (\<exists>r. convertToLibdnsRecord ni rec zone = Inr r)
     \<and> ((ToUpper (Type rec) = ''A'' \<or> ToUpper (Type rec) = ''AAAA'')
           \<and> ParseAddr ni (Data rec) = None
         \<or> ToUpper (Type rec) = ''MX''
           \<and> (length (Fields (Data rec)) \<noteq> 2 \<or> ParseUint (Fields (Data rec) ! 0) 16 = None)
         \<or> ToUpper (Type rec) = ''SRV''
           \<and> (length (Fields (Data rec)) \<noteq> 4 \<or> ParseUint (Fields (Data rec) ! 0) 16 = None
                \<or> ParseUint (Fields (Data rec) ! 1) 16 = None
                \<or> ParseUint (Fields (Data rec) ! 2) 16 = None)
         \<or> ToUpper (Type rec) = ''CAA''
           \<and> (length (SplitN (Data rec) CHR '' '' 3) \<noteq> 3
                \<or> ParseUint (SplitN (Data rec) CHR '' '' 3 ! 0) 8 = None)
         \<or> ToUpper (Type rec) \<notin> set [''A'', ''AAAA'', ''MX'', ''TXT'', ''CNAME'', ''NS'', ''SRV'', ''CAA'']
        \<longrightarrow> convertToLibdnsRecord ni rec zone =
              Inr (Raw \<lparr>RR_Name = RelativeName (butlast (Name rec)) zone,
                        RR_TTL = seconds_to_Duration (TTL rec), RR_Type = Type rec,
                        RR_Data = Data rec\<rparr>))
     \<and> ((length (SplitN (Data rec) CHR '' '' 3) \<noteq> 3) = (count_list (Data rec) CHR '' '' < 2))
     \<and> (\<forall>s bits. s = [] \<or> (\<exists>c \<in> set s. \<not> ((48::nat) \<le> of_char c \<and> of_char c \<le> (57::nat)))
            \<longrightarrow> ParseUint s bits = None)"
proof (intro impI conjI allI)
  assume n: "Name rec \<noteq> []"
  then show "\<exists>r. convertToLibdnsRecord ni rec zone = Inr r"
    by (simp add: convertToLibdnsRecord_def Let_def)
  show "convertToLibdnsRecord ni rec zone =
              Inr (Raw \<lparr>RR_Name = RelativeName (butlast (Name rec)) zone,
                        RR_TTL = seconds_to_Duration (TTL rec), RR_Type = Type rec,
                        RR_Data = Data rec\<rparr>)"
    if "(ToUpper (Type rec) = ''A'' \<or> ToUpper (Type rec) = ''AAAA'')
           \<and> ParseAddr ni (Data rec) = None
         \<or> ToUpper (Type rec) = ''MX''
           \<and> (length (Fields (Data rec)) \<noteq> 2 \<or> ParseUint (Fields (Data rec) ! 0) 16 = None)
         \<or> ToUpper (Type rec) = ''SRV''
           \<and> (length (Fields (Data rec)) \<noteq> 4 \<or> ParseUint (Fields (Data rec) ! 0) 16 = None
                \<or> ParseUint (Fields (Data rec) ! 1) 16 = None
                \<or> ParseUint (Fields (Data rec) ! 2) 16 = None)
         \<or> ToUpper (Type rec) = ''CAA''
           \<and> (length (SplitN (Data rec) CHR '' '' 3) \<noteq> 3
                \<or> ParseUint (SplitN (Data rec) CHR '' '' 3 ! 0) 8 = None)
         \<or> ToUpper (Type rec) \<notin> set [''A'', ''AAAA'', ''MX'', ''TXT'', ''CNAME'', ''NS'', ''SRV'', ''CAA'']"
    using that decode_fallback [OF n, of ni zone] by blast
next
  show "(length (SplitN (Data rec) CHR '' '' 3) \<noteq> 3) = (count_list (Data rec) CHR '' '' < 2)"
    by (rule length_SplitN_3)
next
  fix s bits
  assume "s = [] \<or> (\<exists>c \<in> set s. \<not> ((48::nat) \<le> of_char c \<and> of_char c \<le> (57::nat)))"
  then show "ParseUint s bits = None" by (rule ParseUint_non_numeric)
qed

theorem C2_malformed_data_witness:
  "convertToLibdnsRecord ipv4 (rf 1 ''host.example.com.'' ''MX'' ''bad'') ''example.com''
     = Inr (Raw \<lparr>RR_Name = ''host'', RR_TTL = 300000000000, RR_Type = ''MX'', RR_Data = ''bad''\<rparr>)
   \<and> convertToLibdnsRecord ipv4 (rf 1 ''host.example.com.'' ''SRV'' ''10 20 443'') ''example.com''
     = Inr (Raw \<lparr>RR_Name = ''host'', RR_TTL = 300000000000, RR_Type = ''SRV'',
                RR_Data = ''10 20 443''\<rparr>)
   \<and> convertToLibdnsRecord ipv4 (rf 1 ''host.example.com.'' ''mx'' ''70000 mail.example.com'')
        ''example.com''
     = Inr (Raw \<lparr>RR_Name = ''host'', RR_TTL = 300000000000, RR_Type = ''mx'',
                RR_Data = ''70000 mail.example.com''\<rparr>)
   \<and> convertToLibdnsRecord ipv4 (rf 1 ''host.example.com.'' ''A'' ''10.0.0.256'') ''example.com''
     = Inr (Raw \<lparr>RR_Name = ''host'', RR_TTL = 300000000000, RR_Type = ''A'',
                RR_Data = ''10.0.0.256''\<rparr>)
   \<and> convertToLibdnsRecord ipv4 (rf 1 ''host.example.com.'' ''CAA'' ''0 issue'') ''example.com''
     = Inr (Raw \<lparr>RR_Name = ''host'', RR_TTL = 300000000000, RR_Type = ''CAA'',
                RR_Data = ''0 issue''\<rparr>)"
  using C2_malformed_data_decodes_to_Raw [of "rf 1 ''host.example.com.'' ''MX'' ''bad''" ipv4
      "''example.com''"]
    C2_malformed_data_decodes_to_Raw [of "rf 1 ''host.example.com.'' ''SRV'' ''10 20 443''" ipv4
      "''example.com''"]
    C2_malformed_data_decodes_to_Raw [of "rf 1 ''host.example.com.'' ''mx'' ''70000 mail.example.com''"
      ipv4 "''example.com''"]
    C2_malformed_data_decodes_to_Raw [of "rf 1 ''host.example.com.'' ''A'' ''10.0.0.256''" ipv4
      "''example.com''"]
    C2_malformed_data_decodes_to_Raw [of "rf 1 ''host.example.com.'' ''CAA'' ''0 issue''" ipv4
      "''example.com''"]
  by (simp add: run_defs)

text \<open>
  Claim C2 as stated fails twice. CAA data is not counted in white-space fields: the
  data \<^verbatim>\<open>0  issue\<close> (two spaces) has two white-space fields, yet it decodes to a CAA record
  with an empty tag. And decoding a provider record with an empty name panics.
\<close>

theorem C2_CAA_fields_and_empty_name_counterexample:
  "Fields ''0  issue'' = [''0'', ''issue'']
   \<and> convertToLibdnsRecord ipv4 (rf 1 ''host.example.com.'' ''CAA'' ''0  issue'') ''example.com''
     = Inr (CAA ''host'' 300000000000 0 [] ''issue'')
   \<and> convertToLibdnsRecord ipv4 (rf 1 [] ''MX'' ''bad'') ''example.com'' = Inl Panic_slice_bounds"
  by (simp add: run_defs)

end
